theory Spec2Isabelle
  imports Main
begin

section \<open>Values, errors and the type registry\<close>

text \<open>
  Python values of the built-in types the container stores. A \<open>str\<close> is the list of
  its characters, so \<open>length\<close> is what Python's \<open>len\<close> counts.
\<close>

datatype pyval =
    PyNone
  | PyBool bool
  | PyInt int
  | PyStr string
  | PyList "pyval list"
  | PyDict "(pyval \<times> pyval) list"

text \<open>\<open>type(value).__name__\<close>\<close>

fun type_name :: "pyval \<Rightarrow> string" where
  "type_name PyNone = ''NoneType''"
| "type_name (PyBool b) = ''bool''"
| "type_name (PyInt i) = ''int''"
| "type_name (PyStr s) = ''str''"
| "type_name (PyList xs) = ''list''"
| "type_name (PyDict kvs) = ''dict''"

text \<open>\<open>ResponseError\<close> is what the client raises when the store answers with an error.\<close>

datatype error =
    ValueError string
  | KeyError pyval
  | TypeError string
  | AttributeError string
  | ResponseError string

text \<open>
  \<open>expire\<close> is \<open>Union[int, timedelta, None]\<close>: a number of seconds, or a timedelta,
  kept as its total number of microseconds.
\<close>

datatype expiry = Seconds int | Timedelta int

text \<open>
  \<open>int(td.total_seconds())\<close>. \<open>total_seconds\<close> divides the microseconds by \<open>10**6\<close>
  into a double: the quotient is rounded to the nearest number with a 53-bit mantissa,
  ties to the even mantissa. \<open>int\<close> then cuts the double towards zero. Here on
  integers: \<open>log2_floor\<close> is the binary exponent of the quotient, the mantissa is the
  quotient scaled into 53 bits and rounded. Below one second the double is below 1. The
  range of a timedelta keeps the quotient far from the largest double.
\<close>

function log2_floor :: "nat \<Rightarrow> nat" where
  "log2_floor n = (if n < 2 then 0 else Suc (log2_floor (n div 2)))"
  by pat_completeness auto
termination
  by (relation "measure id") auto

declare log2_floor.simps [simp del]

definition round_half_even :: "nat \<Rightarrow> nat \<Rightarrow> nat" where
  "round_half_even a b =
     (let q = a div b; r = a mod b
      in if 2 * r < b then q
         else if b < 2 * r then q + 1
         else if even q then q else q + 1)"

definition double_seconds :: "nat \<Rightarrow> nat" where
  "double_seconds us =
     (if us < 1000000 then 0
      else (let e = log2_floor (us div 1000000)
            in if e \<le> 52
               then round_half_even (us * 2 ^ (52 - e)) 1000000 div 2 ^ (52 - e)
               else round_half_even us (1000000 * 2 ^ (e - 52)) * 2 ^ (e - 52)))"

definition total_seconds_int :: "int \<Rightarrow> int" where
  "total_seconds_int us =
     (if 0 \<le> us then int (double_seconds (nat us)) else - int (double_seconds (nat (- us))))"

text \<open>The whole seconds of an \<open>expire\<close> value: an \<open>int\<close> as it is, a timedelta converted.\<close>

definition seconds_of :: "expiry \<Rightarrow> int" where
  "seconds_of e = (case e of Timedelta us \<Rightarrow> total_seconds_int us | Seconds n \<Rightarrow> n)"

text \<open>\<open>str\<close> of an integer: decimal digits, with a minus sign when negative.\<close>

definition digit_char :: "nat \<Rightarrow> char" where
  "digit_char d = ''0123456789'' ! (d mod 10)"

function str_nat :: "nat \<Rightarrow> string" where
  "str_nat n = (if n < 10 then [digit_char n] else str_nat (n div 10) @ [digit_char (n mod 10)])"
  by pat_completeness auto
termination
  by (relation "measure id") auto

declare str_nat.simps [simp del]

definition str_int :: "int \<Rightarrow> string" where
  "str_int i = (if i < 0 then CHR ''-'' # str_nat (nat (- i)) else str_nat (nat i))"

text \<open>Reading a decimal integer: an optional minus sign, then digits and nothing else.\<close>

fun find_char :: "char \<Rightarrow> string \<Rightarrow> nat option" where
  "find_char c [] = None"
| "find_char c (x # xs) =
     (if x = c then Some 0 else (case find_char c xs of None \<Rightarrow> None | Some i \<Rightarrow> Some (Suc i)))"

fun parse_digits :: "nat \<Rightarrow> string \<Rightarrow> nat option" where
  "parse_digits acc [] = Some acc"
| "parse_digits acc (c # cs) =
     (case find_char c ''0123456789'' of
        None \<Rightarrow> None
      | Some d \<Rightarrow> parse_digits (10 * acc + d) cs)"

definition parse_decimal :: "string \<Rightarrow> int option" where
  "parse_decimal str =
     (case str of
        [] \<Rightarrow> None
      | c # cs \<Rightarrow>
          (if c = CHR ''-'' \<and> cs \<noteq> []
           then (case parse_digits 0 cs of None \<Rightarrow> None | Some n \<Rightarrow> Some (- int n))
           else (case parse_digits 0 str of None \<Rightarrow> None | Some n \<Rightarrow> Some (int n))))"

text \<open>
  The registries and the default decoder live in the module \<open>type_management\<close>, which
  is imported by \<open>core.py\<close>; they are parameters here, as is the text Python's \<open>str\<close>
  gives for lists and mappings. An encoder returns the payload text; a decoder may raise.
\<close>

record runtime =
  encoding_registry :: "string \<rightharpoonup> (pyval \<Rightarrow> string)"
  decoding_registry :: "string \<rightharpoonup> (string \<Rightarrow> error + pyval)"
  default_decoder :: "string \<Rightarrow> error + pyval"
  str_compound :: "pyval \<Rightarrow> string"

text \<open>\<open>str(value)\<close>, as an f-string applies it.\<close>

definition py_str :: "runtime \<Rightarrow> pyval \<Rightarrow> string" where
  "py_str rt v =
     (case v of
        PyStr s \<Rightarrow> s
      | PyInt i \<Rightarrow> str_int i
      | PyNone \<Rightarrow> ''None''
      | PyBool b \<Rightarrow> (if b then ''True'' else ''False'')
      | _ \<Rightarrow> str_compound rt v)"

section \<open>The store behind the connection\<close>

text \<open>
  The calls the container makes on its client: \<open>set(name, value, ex=, keepttl=)\<close>,
  \<open>exists\<close>, \<open>get\<close>, \<open>delete\<close>, \<open>mget\<close>, \<open>scan_iter(match=, count=)\<close> and
  \<open>execute_command(*args)\<close>.
\<close>

datatype command =
    SET string string "expiry option" bool
  | EXISTS string
  | GET string
  | DEL "string list"
  | MGET "string list"
  | SCAN string "nat option"
  | RAW "string list"

datatype reply =
    Nil
  | Ok
  | Bulk string
  | Integer int
  | Array "string option list"
  | Keys "string list"
  | Error string

text \<open>
  What reaches the store: a command sent on its own, or the batch sent by the
  \<open>execute()\<close> of a pipeline handle.
\<close>

datatype trip = Single command | Batch "command list"

record server =
  entries :: "(string \<times> string) list"
  round_trips :: "trip list"

text \<open>
  Glob matching of the store's \<open>MATCH\<close>, after the store's matcher: \<open>*\<close> is any run
  of characters, \<open>?\<close> any one character, \<open>[...]\<close> a class with ranges \<open>a-z\<close>, a
  leading \<open>^\<close> for its complement and backslash escapes, a backslash makes the next
  character literal, every other character is literal. An empty string matches the
  empty pattern only; once the string is used up, stars may remain in the pattern. The
  matcher's limit on nested stars is left out.
\<close>

definition skip_stars :: "string \<Rightarrow> string" where
  "skip_stars p = dropWhile (\<lambda>c. c = CHR ''*'') p"

definition in_range :: "char \<Rightarrow> char \<Rightarrow> char \<Rightarrow> bool" where
  "in_range a b c =
     (let lo = min (of_char a :: nat) (of_char b); hi = max (of_char a :: nat) (of_char b)
      in lo \<le> of_char c \<and> of_char c \<le> hi)"

text \<open>
  The inside of a class against one character: whether it matched, and the pattern
  after the closing bracket (nothing, when the class is not closed).
\<close>

fun class_scan :: "string \<Rightarrow> char \<Rightarrow> bool \<times> string" where
  "class_scan [] c = (False, [])"
| "class_scan [x] c = (if x = CHR '']'' then (False, []) else (x = c, []))"
| "class_scan [x, y] c =
     (if x = CHR 0x5C then (y = c, [])
      else if x = CHR '']'' then (False, [y])
      else (case class_scan [y] c of (m, rest) \<Rightarrow> (x = c \<or> m, rest)))"
| "class_scan (x # y # z # zs) c =
     (if x = CHR 0x5C then (case class_scan (z # zs) c of (m, rest) \<Rightarrow> (y = c \<or> m, rest))
      else if x = CHR '']'' then (False, y # z # zs)
      else if y = CHR ''-'' then (case class_scan zs c of (m, rest) \<Rightarrow> (in_range x z c \<or> m, rest))
      else (case class_scan (y # z # zs) c of (m, rest) \<Rightarrow> (x = c \<or> m, rest)))"

text \<open>One pattern element against one character: whether it matched, and the pattern after it.\<close>

definition glob_step :: "char \<Rightarrow> string \<Rightarrow> char \<Rightarrow> bool \<times> string" where
  "glob_step p ps c =
     (if p = CHR ''?'' then (True, ps)
      else if p = CHR ''['' then
        (case ps of
           [] \<Rightarrow> class_scan [] c
         | x # xs \<Rightarrow>
             (if x = CHR ''^'' then (case class_scan xs c of (m, rest) \<Rightarrow> (\<not> m, rest))
              else class_scan ps c))
      else if p = CHR 0x5C then
        (case ps of [] \<Rightarrow> (p = c, []) | x # xs \<Rightarrow> (x = c, xs))
      else (p = c, ps))"

function glob :: "string \<Rightarrow> string \<Rightarrow> bool" where
  "glob [] s = (s = [])"
| "glob (p # ps) [] = False"
| "glob (p # ps) (c # cs) =
     (if p = CHR ''*'' then
        (if skip_stars ps = [] then True
         else glob (skip_stars ps) (c # cs) \<or> glob (CHR ''*'' # skip_stars ps) cs)
      else
        fst (glob_step p ps c)
        \<and> (if cs = [] then skip_stars (snd (glob_step p ps c)) = []
            else glob (snd (glob_step p ps c)) cs))"
  by pat_completeness auto
termination
  by (relation "measures [\<lambda>(p, s). length s, \<lambda>(p, s). length p]")
     (auto simp: skip_stars_def length_dropWhile_le less_Suc_eq_le)

fun upsert :: "string \<Rightarrow> string \<Rightarrow> (string \<times> string) list \<Rightarrow> (string \<times> string) list" where
  "upsert k v [] = [(k, v)]"
| "upsert k v ((k', v') # es) = (if k' = k then (k, v) # es else (k', v') # upsert k v es)"

definition remove_keys :: "string list \<Rightarrow> (string \<times> string) list \<Rightarrow> (string \<times> string) list" where
  "remove_keys ks es = filter (\<lambda>(k, v). k \<notin> set ks) es"

text \<open>
  What the store refuses whatever it holds. A \<open>SET\<close> whose expiry is not positive; the
  client writes \<open>ex\<close> as \<open>EX\<close> with the seconds, converted as above when it is a
  timedelta. Of the arguments of \<open>execute_command\<close> the store takes \<open>GETDEL key\<close> and
  \<open>SET key value NX GET\<close>, the latter alone, with \<open>KEEPTTL\<close>, or with \<open>EX\<close> and a
  positive number. The store's upper limit on an expiry, which depends on its clock, is
  left out.
\<close>

definition refusal :: "command \<Rightarrow> string option" where
  "refusal c =
     (case c of
        SET k v ex keepttl \<Rightarrow>
          (case ex of
             None \<Rightarrow> None
           | Some e \<Rightarrow> (if seconds_of e \<le> 0 then Some ''invalid expire time in set command'' else None))
      | RAW args \<Rightarrow>
          (if length args = 2 \<and> args ! 0 = ''GETDEL'' then None
           else if 5 \<le> length args \<and> args ! 0 = ''SET'' \<and> args ! 3 = ''NX'' \<and> args ! 4 = ''GET'' then
             (if drop 5 args = [] \<or> drop 5 args = [''KEEPTTL''] then None
              else if length args = 7 \<and> args ! 5 = ''EX'' then
                (case parse_decimal (args ! 6) of
                   None \<Rightarrow> Some ''value is not an integer or out of range''
                 | Some n \<Rightarrow> (if n \<le> 0 then Some ''invalid expire time in set command'' else None))
              else Some ''syntax error'')
           else Some ''unknown command'')
      | _ \<Rightarrow> None)"

text \<open>
  The store's answer to one command and its entries afterwards. Expiry is not tracked:
  the \<open>EX\<close> and \<open>KEEPTTL\<close> arguments are seen in the record of what was sent. A scan
  for the pattern \<open>*\<close> does not filter.
\<close>

definition serve :: "command \<Rightarrow> (string \<times> string) list \<Rightarrow> reply \<times> (string \<times> string) list" where
  "serve c es =
     (case refusal c of
        Some m \<Rightarrow> (Error m, es)
      | None \<Rightarrow>
     (case c of
        SET k v ex keepttl \<Rightarrow> (Ok, upsert k v es)
      | EXISTS k \<Rightarrow> (Integer (if k \<in> fst ` set es then 1 else 0), es)
      | GET k \<Rightarrow> ((case map_of es k of None \<Rightarrow> Nil | Some v \<Rightarrow> Bulk v), es)
      | DEL ks \<Rightarrow> (Integer (int (length (filter (\<lambda>(k, v). k \<in> set ks) es))), remove_keys ks es)
      | MGET ks \<Rightarrow> (Array (map (map_of es) ks), es)
      | SCAN pat cnt \<Rightarrow>
          (Keys (if pat = ''*'' then map fst es else filter (glob pat) (map fst es)), es)
      | RAW args \<Rightarrow>
          (if length args = 2 then
             (case map_of es (args ! 1) of
                None \<Rightarrow> (Nil, es)
              | Some v \<Rightarrow> (Bulk v, remove_keys [args ! 1] es))
           else
             (case map_of es (args ! 1) of
                None \<Rightarrow> (Nil, upsert (args ! 1) (args ! 2) es)
              | Some v \<Rightarrow> (Bulk v, es)))))"

text \<open>
  A batch: the store runs every command of it in order, the refused ones change nothing,
  and the client raises the first refusal once all replies are in.
\<close>

fun serve_all :: "command list \<Rightarrow> (string \<times> string) list \<Rightarrow> (string \<times> string) list" where
  "serve_all [] es = es"
| "serve_all (c # cs) es = serve_all cs (snd (serve c es))"

fun first_refusal :: "command list \<Rightarrow> string option" where
  "first_refusal [] = None"
| "first_refusal (c # cs) = (case refusal c of Some m \<Rightarrow> Some m | None \<Rightarrow> first_refusal cs)"

section \<open>The container\<close>

text \<open>
  \<open>self.valkey\<close> and \<open>self._temp_valkey\<close> hold a handle: the client, a pipeline
  handle with the commands queued on it, or \<open>None\<close>. \<open>self.get_valkey\<close> is the client
  throughout; \<open>conn\<close> is the store that client reaches.
\<close>

datatype handle = Null | Client | Pipeline "command list"

record valkey_dict =
  namespace :: string
  expire :: "expiry option"
  preserve_expiration :: bool
  raise_key_error_delete :: bool
  valkey :: handle
  temp_valkey :: handle
  max_string_size :: nat
  batch_size :: nat
  rt :: runtime
  conn :: server

type_synonym 'a result = "(error + 'a) \<times> valkey_dict"

definition init :: "string \<Rightarrow> expiry option \<Rightarrow> bool \<Rightarrow> bool \<Rightarrow> runtime \<Rightarrow> server \<Rightarrow> valkey_dict" where
  "init ns ex pe rk r srv =
     \<lparr> namespace = ns, expire = ex, preserve_expiration = pe, raise_key_error_delete = rk,
       valkey = Client, temp_valkey = Null, max_string_size = 500 * 1024 * 1024,
       batch_size = 200, rt = r, conn = srv \<rparr>"

text \<open>
  A call on \<open>self.get_valkey\<close>: one round trip; an error reply of the store is raised
  as \<open>ResponseError\<close>.
\<close>

definition client_call :: "command \<Rightarrow> valkey_dict \<Rightarrow> reply result" where
  "client_call c s =
     (let (r, es) = serve c (entries (conn s));
          s' = s\<lparr>conn := \<lparr>entries = es, round_trips = round_trips (conn s) @ [Single c]\<rparr>\<rparr>
      in case r of
           Error m \<Rightarrow> (Inl (ResponseError m), s')
         | _ \<Rightarrow> (Inr r, s'))"

text \<open>
  A call on \<open>self.valkey\<close>: a round trip on the client; on a pipeline handle the command
  is queued and the handle itself comes back, no reply.
\<close>

definition valkey_call :: "command \<Rightarrow> valkey_dict \<Rightarrow> reply option result" where
  "valkey_call c s =
     (case valkey s of
        Null \<Rightarrow> (Inl (AttributeError ''NoneType''), s)
      | Client \<Rightarrow> (case client_call c s of (Inl e, s') \<Rightarrow> (Inl e, s') | (Inr r, s') \<Rightarrow> (Inr (Some r), s'))
      | Pipeline q \<Rightarrow> (Inr None, s\<lparr>valkey := Pipeline (q @ [c])\<rparr>))"

text \<open>Truth value of a reply, as \<open>if\<close>, \<open>and\<close> and \<open>not\<close> take it.\<close>

fun truthy :: "reply \<Rightarrow> bool" where
  "truthy Nil = False"
| "truthy Ok = True"
| "truthy (Bulk s) = (s \<noteq> [])"
| "truthy (Integer i) = (i \<noteq> 0)"
| "truthy (Array xs) = (xs \<noteq> [])"
| "truthy (Keys ks) = (ks \<noteq> [])"
| "truthy (Error m) = True"

definition format_key :: "valkey_dict \<Rightarrow> pyval \<Rightarrow> string" where
  "format_key s key = namespace s @ '':'' @ py_str (rt s) key"

definition parse_key :: "valkey_dict \<Rightarrow> string \<Rightarrow> string" where
  "parse_key s key = drop (length (namespace s) + 1) key"

definition valid_input :: "valkey_dict \<Rightarrow> pyval \<Rightarrow> bool" where
  "valid_input s v =
     (let store_type = type_name v
      in if store_type = ''str'' then (case v of PyStr x \<Rightarrow> length x < max_string_size s | _ \<Rightarrow> True)
         else True)"

definition format_value :: "valkey_dict \<Rightarrow> pyval \<Rightarrow> string" where
  "format_value s v =
     (let store_type = type_name v;
          encoded_value = (case encoding_registry (rt s) store_type of
                             Some f \<Rightarrow> f v
                           | None \<Rightarrow> py_str (rt s) v)
      in store_type @ '':'' @ encoded_value)"

text \<open>
  \<open>_store_set\<close>: \<open>exists\<close> is asked only when \<open>preserve_expiration\<close> is set, and on
  the client even inside a pipeline scope.
\<close>

definition store_set :: "valkey_dict \<Rightarrow> string \<Rightarrow> string \<Rightarrow> unit result" where
  "store_set s formatted_key formatted_value =
     (case (if preserve_expiration s
            then (case client_call (EXISTS formatted_key) s of
                    (Inl e, s') \<Rightarrow> (Inl e, s')
                  | (Inr r, s') \<Rightarrow> (Inr (truthy r), s'))
            else (Inr False, s)) of
        (Inl e, s1) \<Rightarrow> (Inl e, s1)
      | (Inr present, s1) \<Rightarrow>
          (if present
           then (case valkey_call (SET formatted_key formatted_value None True) s1 of
                   (Inl e, s2) \<Rightarrow> (Inl e, s2) | (Inr r, s2) \<Rightarrow> (Inr (), s2))
           else (case valkey_call (SET formatted_key formatted_value (expire s1) False) s1 of
                   (Inl e, s2) \<Rightarrow> (Inl e, s2) | (Inr r, s2) \<Rightarrow> (Inr (), s2))))"

definition store :: "valkey_dict \<Rightarrow> pyval \<Rightarrow> pyval \<Rightarrow> unit result" where
  "store s key v =
     (if \<not> valid_input s v \<or> \<not> valid_input s key
      then (Inl (ValueError ''Invalid input value or key size exceeded the maximum limit.''), s)
      else store_set s (format_key s key) (format_value s v))"

text \<open>\<open>result.split(':', 1)\<close> unpacked into two names: no colon, no second part.\<close>

fun split_colon :: "string \<Rightarrow> (string \<times> string) option" where
  "split_colon [] = None"
| "split_colon (c # cs) =
     (if c = CHR '':'' then Some ([], cs)
      else (case split_colon cs of None \<Rightarrow> None | Some (a, b) \<Rightarrow> Some (c # a, b)))"

definition transform :: "valkey_dict \<Rightarrow> string \<Rightarrow> error + pyval" where
  "transform s result =
     (case split_colon result of
        None \<Rightarrow> Inl (ValueError ''not enough values to unpack (expected 2, got 1)'')
      | Some (type', v) \<Rightarrow>
          (case decoding_registry (rt s) type' of
             Some f \<Rightarrow> f v
           | None \<Rightarrow> default_decoder (rt s) v))"

text \<open>
  A reply that is \<open>None\<close> means the key is absent; text is decoded; any other reply
  has no \<open>split\<close>.
\<close>

definition load :: "valkey_dict \<Rightarrow> pyval \<Rightarrow> (bool \<times> pyval) result" where
  "load s key =
     (case client_call (GET (format_key s key)) s of
        (Inl e, s1) \<Rightarrow> (Inl e, s1)
      | (Inr result, s1) \<Rightarrow>
          (case result of
             Nil \<Rightarrow> (Inr (False, PyNone), s1)
           | Bulk x \<Rightarrow> (case transform s x of Inl e \<Rightarrow> (Inl e, s1) | Inr v \<Rightarrow> (Inr (True, v), s1))
           | _ \<Rightarrow> (Inl (AttributeError ''split''), s1)))"

definition getitem :: "valkey_dict \<Rightarrow> pyval \<Rightarrow> pyval result" where
  "getitem s item =
     (case load s item of
        (Inl e, s1) \<Rightarrow> (Inl e, s1)
      | (Inr (found, v), s1) \<Rightarrow> (if \<not> found then (Inl (KeyError item), s1) else (Inr v, s1)))"

definition setitem :: "valkey_dict \<Rightarrow> pyval \<Rightarrow> pyval \<Rightarrow> unit result" where
  "setitem s key v = store s key v"

text \<open>\<open>__delitem__\<close>: a pipeline handle, which is what \<open>delete\<close> returns when it queues, is true.\<close>

definition delitem :: "valkey_dict \<Rightarrow> pyval \<Rightarrow> unit result" where
  "delitem s key =
     (let formatted_key = format_key s key
      in case valkey_call (DEL [formatted_key]) s of
           (Inl e, s1) \<Rightarrow> (Inl e, s1)
         | (Inr result, s1) \<Rightarrow>
             (if raise_key_error_delete s \<and> \<not> (case result of None \<Rightarrow> True | Some r \<Rightarrow> truthy r)
              then (Inl (KeyError key), s1) else (Inr (), s1)))"

definition get :: "valkey_dict \<Rightarrow> pyval \<Rightarrow> pyval \<Rightarrow> pyval result" where
  "get s key default' =
     (case load s key of
        (Inl e, s1) \<Rightarrow> (Inl e, s1)
      | (Inr (found, item), s1) \<Rightarrow> (if \<not> found then (Inr default', s1) else (Inr item, s1)))"

text \<open>\<open>pop\<close>: the default is \<open>None\<close> here when the caller passed none (the sentinel).\<close>

definition pop :: "valkey_dict \<Rightarrow> pyval \<Rightarrow> pyval option \<Rightarrow> pyval result" where
  "pop s key default' =
     (let formatted_key = format_key s key
      in case client_call (RAW [''GETDEL'', formatted_key]) s of
           (Inl e, s1) \<Rightarrow> (Inl e, s1)
         | (Inr v, s1) \<Rightarrow>
             (case v of
                Nil \<Rightarrow> (case default' of
                         Some d \<Rightarrow> (Inr d, s1)
                       | None \<Rightarrow> (Inl (KeyError (PyStr formatted_key)), s1))
              | Bulk x \<Rightarrow> (transform s x, s1)
              | _ \<Rightarrow> (Inl (AttributeError ''split''), s1)))"

definition create_set_get_command ::
  "valkey_dict \<Rightarrow> string \<Rightarrow> string \<Rightarrow> string list \<times> (string \<times> bool) list" where
  "create_set_get_command s formatted_key formatted_value =
     (let options = [(''get'', True)];
          args = [''SET'', formatted_key, formatted_value, ''NX'', ''GET''];
          args = (if preserve_expiration s then args @ [''KEEPTTL'']
                  else (case expire s of
                          None \<Rightarrow> args
                        | Some e \<Rightarrow>
                            (let expire_val = (case e of Timedelta us \<Rightarrow> total_seconds_int us
                                               | Seconds n \<Rightarrow> n);
                                 expire_str = (if expire_val \<le> 1 then str_int 1 else str_int expire_val)
                             in args @ [''EX'', expire_str])))
      in (args, options))"

definition setdefault :: "valkey_dict \<Rightarrow> pyval \<Rightarrow> pyval \<Rightarrow> pyval result" where
  "setdefault s key default_value =
     (let formatted_key = format_key s key;
          formatted_value = format_value s default_value;
          (args, options) = create_set_get_command s formatted_key formatted_value
      in case client_call (RAW args) s of
           (Inl e, s1) \<Rightarrow> (Inl e, s1)
         | (Inr result, s1) \<Rightarrow>
             (case result of
                Nil \<Rightarrow> (Inr default_value, s1)
              | Bulk x \<Rightarrow> (transform s x, s1)
              | _ \<Rightarrow> (Inl (AttributeError ''split''), s1)))"

section \<open>Scopes\<close>

text \<open>
  \<open>expire_at\<close> is a generator under \<open>contextmanager\<close>: the part before \<open>yield\<close> runs
  on entry and the part after it when the body of the \<open>with\<close> ends normally. An error of
  the body is raised again at the \<open>yield\<close>, which no \<open>try\<close> encloses, so it leaves the
  generator there.
\<close>

definition expire_at_enter :: "expiry \<Rightarrow> valkey_dict \<Rightarrow> expiry option \<times> valkey_dict" where
  "expire_at_enter sec_epoch s = (expire s, s\<lparr>expire := Some sec_epoch\<rparr>)"

definition expire_at_resume :: "expiry option \<Rightarrow> valkey_dict \<Rightarrow> valkey_dict" where
  "expire_at_resume temp s = s\<lparr>expire := temp\<rparr>"

text \<open>
  \<open>pipeline\<close>: the part before \<open>try\<close>, and the \<open>finally\<close> block, which runs however
  the body ends.

  \<open>execute()\<close> on a pipeline handle: with nothing queued it returns at once and sends
  nothing. Otherwise the queue goes to the store as one batch, the handle is emptied,
  and the first refusal among the replies is raised.

  In the \<open>finally\<close> block the right-hand side \<open>self.valkey.execute(), None,
  self._temp_valkey\<close> is evaluated before anything is assigned: when \<open>execute()\<close>
  raises, neither \<open>self._temp_valkey\<close> nor \<open>self.valkey\<close> is assigned.
\<close>

definition pipeline_enter :: "valkey_dict \<Rightarrow> bool result" where
  "pipeline_enter s =
     (if temp_valkey s = Null
      then (case valkey s of
              Null \<Rightarrow> (Inl (AttributeError ''pipeline''), s)
            | _ \<Rightarrow> (Inr True, s\<lparr>valkey := Pipeline [], temp_valkey := valkey s\<rparr>))
      else (Inr False, s))"

definition execute :: "command list \<Rightarrow> server \<Rightarrow> string option \<times> server" where
  "execute q srv =
     (if q = [] then (None, srv)
      else (first_refusal q,
            \<lparr>entries = serve_all q (entries srv), round_trips = round_trips srv @ [Batch q]\<rparr>))"

definition pipeline_finally :: "bool \<Rightarrow> valkey_dict \<Rightarrow> unit result" where
  "pipeline_finally top_level s =
     (if top_level
      then (case valkey s of
              Pipeline q \<Rightarrow>
                (case execute q (conn s) of
                   (None, srv) \<Rightarrow>
                     (Inr (), s\<lparr>conn := srv, temp_valkey := Null, valkey := temp_valkey s\<rparr>)
                 | (Some m, srv) \<Rightarrow>
                     (Inl (ResponseError m), s\<lparr>conn := srv, valkey := Pipeline []\<rparr>))
            | _ \<Rightarrow> (Inl (AttributeError ''execute''), s))
      else (Inr (), s))"

text \<open>
  Code of a caller: statements on one container, run in order up to the first error,
  with the two scopes as \<open>with\<close> blocks. An error raised in a \<open>finally\<close> block takes
  the place of the error of the body.
\<close>

datatype stmt =
    Setitem pyval pyval
  | Delitem pyval
  | Getitem pyval
  | Setdefault pyval pyval
  | Raise error
  | With_pipeline "stmt list"
  | With_expire_at expiry "stmt list"

fun exec :: "stmt \<Rightarrow> valkey_dict \<Rightarrow> unit result"
  and exec_block :: "stmt list \<Rightarrow> valkey_dict \<Rightarrow> unit result" where
  "exec (Setitem key v) s = setitem s key v"
| "exec (Delitem key) s = delitem s key"
| "exec (Getitem key) s =
     (case getitem s key of (Inl e, s1) \<Rightarrow> (Inl e, s1) | (Inr v, s1) \<Rightarrow> (Inr (), s1))"
| "exec (Setdefault key v) s =
     (case setdefault s key v of (Inl e, s1) \<Rightarrow> (Inl e, s1) | (Inr v, s1) \<Rightarrow> (Inr (), s1))"
| "exec (Raise e) s = (Inl e, s)"
| "exec (With_pipeline body) s =
     (case pipeline_enter s of
        (Inl e, s1) \<Rightarrow> (Inl e, s1)
      | (Inr top_level, s1) \<Rightarrow>
          (case exec_block body s1 of
             (r, s2) \<Rightarrow>
               (case pipeline_finally top_level s2 of
                  (Inl e, s3) \<Rightarrow> (Inl e, s3)
                | (Inr u, s3) \<Rightarrow> (r, s3))))"
| "exec (With_expire_at sec_epoch body) s =
     (case expire_at_enter sec_epoch s of
        (temp, s1) \<Rightarrow>
          (case exec_block body s1 of
             (Inl e, s2) \<Rightarrow> (Inl e, s2)
           | (Inr u, s2) \<Rightarrow> (Inr (), expire_at_resume temp s2)))"
| "exec_block [] s = (Inr (), s)"
| "exec_block (c # cs) s =
     (case exec c s of (Inl e, s1) \<Rightarrow> (Inl e, s1) | (Inr u, s1) \<Rightarrow> exec_block cs s1)"

section \<open>Operations on a key prefix\<close>

definition create_iter_query :: "valkey_dict \<Rightarrow> string \<Rightarrow> string" where
  "create_iter_query s search_term = namespace s @ '':'' @ search_term @ ''*''"

definition scan_keys :: "valkey_dict \<Rightarrow> string \<Rightarrow> bool \<Rightarrow> string list result" where
  "scan_keys s search_term full_scan =
     (let search_query = create_iter_query s search_term;
          count = (if full_scan then None else Some (batch_size s))
      in case client_call (SCAN search_query count) s of
           (Inl e, s1) \<Rightarrow> (Inl e, s1)
         | (Inr r, s1) \<Rightarrow> (Inr (case r of Keys ks \<Rightarrow> ks | _ \<Rightarrow> []), s1))"

text \<open>\<open>[self._transform(i) for i in ... if i is not None]\<close>: the first error ends it.\<close>

fun transform_present :: "valkey_dict \<Rightarrow> string option list \<Rightarrow> error + pyval list" where
  "transform_present s [] = Inr []"
| "transform_present s (None # xs) = transform_present s xs"
| "transform_present s (Some x # xs) =
     (case transform s x of
        Inl e \<Rightarrow> Inl e
      | Inr v \<Rightarrow> (case transform_present s xs of Inl e \<Rightarrow> Inl e | Inr vs \<Rightarrow> Inr (v # vs)))"

text \<open>\<open>str.rfind\<close> for one character: an index, or \<open>-1\<close>.\<close>

definition rfind :: "string \<Rightarrow> char \<Rightarrow> int" where
  "rfind str c =
     (case find_char c (rev str) of None \<Rightarrow> - 1 | Some i \<Rightarrow> int (length str) - 1 - int i)"

text \<open>
  Iterating what \<open>mget\<close> returned and decoding what is not \<open>None\<close>. On the client that
  is the list of replies. A pipeline handle has queued the \<open>mget\<close> and returned itself;
  it has no \<open>__iter__\<close>, so the loop asks it for item 0, which queues \<open>GET 0\<close> and again
  returns the handle, and decoding the handle fails for want of \<open>split\<close>.
\<close>

definition decode_replies :: "valkey_dict \<Rightarrow> reply option \<Rightarrow> valkey_dict \<Rightarrow> pyval list result" where
  "decode_replies s r s2 =
     (case r of
        None \<Rightarrow>
          (case valkey_call (GET ''0'') s2 of
             (Inl e, s3) \<Rightarrow> (Inl e, s3)
           | (Inr x, s3) \<Rightarrow> (Inl (AttributeError ''split''), s3))
      | Some (Array xs) \<Rightarrow> (transform_present s xs, s2)
      | Some x \<Rightarrow> (Inl (TypeError ''object is not iterable''), s2))"

definition multi_get :: "valkey_dict \<Rightarrow> string \<Rightarrow> pyval list result" where
  "multi_get s key =
     (case scan_keys s key False of
        (Inl e, s1) \<Rightarrow> (Inl e, s1)
      | (Inr found_keys, s1) \<Rightarrow>
          (if length found_keys = 0 then (Inr [], s1)
           else (case valkey_call (MGET found_keys) s1 of
                   (Inl e, s2) \<Rightarrow> (Inl e, s2)
                 | (Inr r, s2) \<Rightarrow> decode_replies s r s2)))"

text \<open>
  \<open>multi_dict\<close> returns a dict, here the map it denotes: of two pairs of the \<open>zip\<close> with
  the same name, the later one stays.
\<close>

definition multi_dict :: "valkey_dict \<Rightarrow> string \<Rightarrow> (string \<rightharpoonup> pyval) result" where
  "multi_dict s key =
     (case scan_keys s key False of
        (Inl e, s1) \<Rightarrow> (Inl e, s1)
      | (Inr keys, s1) \<Rightarrow>
          (case keys of
             [] \<Rightarrow> (Inr Map.empty, s1)
           | k0 # ks \<Rightarrow>
               (let to_rm = rfind k0 CHR '':'' + 1
                in case valkey_call (MGET keys) s1 of
                     (Inl e, s2) \<Rightarrow> (Inl e, s2)
                   | (Inr r, s2) \<Rightarrow>
                       (case decode_replies s r s2 of
                          (Inl e, s3) \<Rightarrow> (Inl e, s3)
                        | (Inr vs, s3) \<Rightarrow>
                            (Inr (map_of (rev (zip (map (drop (nat to_rm)) keys) vs))), s3)))))"

text \<open>\<open>multi_del\<close> hands back what \<open>delete\<close> gave: a count, or nothing yet on a pipeline handle.\<close>

definition multi_del :: "valkey_dict \<Rightarrow> string \<Rightarrow> reply option result" where
  "multi_del s key =
     (case scan_keys s key False of
        (Inl e, s1) \<Rightarrow> (Inl e, s1)
      | (Inr keys, s1) \<Rightarrow>
          (if length keys = 0 then (Inr (Some (Integer 0)), s1)
           else valkey_call (DEL keys) s1))"

section \<open>A runtime for the examples\<close>

text \<open>
  Modelled from the spec: the registries and the default decoder of \<open>type_management\<close>,
  which is not under \<open>src/\<close>. The spec has them filled for text, integers, floats,
  booleans, null, lists and mappings, decoding being the inverse of encoding, and has a
  tag with no decoder give the payload as text. Given here are the four scalar tags:
  text is its own payload, an integer is stored as its decimal digits, \<open>True\<close>,
  \<open>False\<close> and \<open>None\<close> as their names, and decoding inverts these. Floats are not
  among the values of this theory; lists and mappings have no entry here and their text
  is left empty, so this runtime stands for the repository's on text, integers, booleans
  and \<open>None\<close> only, which is all that the examples store.
\<close>

definition parse_int :: "string \<Rightarrow> error + pyval" where
  "parse_int str =
     (case parse_decimal str of
        None \<Rightarrow> Inl (ValueError ''invalid literal for int()'')
      | Some n \<Rightarrow> Inr (PyInt n))"

definition example_runtime :: runtime where
  "example_runtime =
     \<lparr> encoding_registry =
         [''str'' \<mapsto> (\<lambda>v. case v of PyStr x \<Rightarrow> x | _ \<Rightarrow> []),
          ''int'' \<mapsto> (\<lambda>v. case v of PyInt i \<Rightarrow> str_int i | _ \<Rightarrow> []),
          ''bool'' \<mapsto> (\<lambda>v. case v of PyBool b \<Rightarrow> (if b then ''True'' else ''False'') | _ \<Rightarrow> []),
          ''NoneType'' \<mapsto> (\<lambda>v. ''None'')],
       decoding_registry =
         [''str'' \<mapsto> (\<lambda>x. Inr (PyStr x)),
          ''int'' \<mapsto> parse_int,
          ''bool'' \<mapsto> (\<lambda>x. Inr (PyBool (x = ''True''))),
          ''NoneType'' \<mapsto> (\<lambda>x. Inr PyNone)],
       default_decoder = (\<lambda>x. Inr (PyStr x)),
       str_compound = (\<lambda>v. []) \<rparr>"

definition empty_server :: server where
  "empty_server = \<lparr>entries = [], round_trips = []\<rparr>"

section \<open>Expiry arguments\<close>

text \<open>
  The expiry arguments of the conditional command in words: \<open>KEEPTTL\<close> when
  \<open>preserve_expiration\<close> is set, whether the key exists or not; otherwise \<open>EX\<close> with
  the seconds of the configured \<open>expire\<close>, raised to 1 when they are less; nothing when
  \<open>expire\<close> is \<open>None\<close>.
\<close>

definition setdefault_ttl :: "valkey_dict \<Rightarrow> string list" where
  "setdefault_ttl s =
     (if preserve_expiration s then [''KEEPTTL'']
      else (case expire s of
              None \<Rightarrow> []
            | Some e \<Rightarrow> [''EX'', str_int (max 1 (seconds_of e))]))"

text \<open>
  The expiry arguments of a command as they go to the store: the client writes \<open>ex\<close> as
  \<open>EX\<close> with the seconds and \<open>keepttl\<close> as \<open>KEEPTTL\<close>; the arguments of
  \<open>execute_command\<close> go as they are, here those after \<open>SET key value NX GET\<close>.
\<close>

definition ttl_arguments :: "command \<Rightarrow> string list" where
  "ttl_arguments c =
     (case c of
        SET k v ex keepttl \<Rightarrow>
          (case ex of None \<Rightarrow> [] | Some e \<Rightarrow> [''EX'', str_int (seconds_of e)])
          @ (if keepttl then [''KEEPTTL''] else [])
      | RAW args \<Rightarrow> drop 5 args
      | _ \<Rightarrow> [])"

section \<open>What a scope leaves behind\<close>

text \<open>The batches among the round trips, in the order they were sent.\<close>

fun batches :: "trip list \<Rightarrow> command list list" where
  "batches [] = []"
| "batches (Single c # ts) = batches ts"
| "batches (Batch q # ts) = q # batches ts"

text \<open>
  From \<open>s\<close> to \<open>s'\<close> the pipeline handle stayed in place and only grew, the saved
  handle was not touched, and no batch was sent.
\<close>

definition queued_more :: "valkey_dict \<Rightarrow> valkey_dict \<Rightarrow> bool" where
  "queued_more s s' =
     ((\<exists>q q'. valkey s = Pipeline q \<and> valkey s' = Pipeline (q @ q'))
      \<and> temp_valkey s' = temp_valkey s
      \<and> batches (round_trips (conn s')) = batches (round_trips (conn s)))"

section \<open>Facts about numbers and text\<close>

lemma log2_floor_eq: "2 ^ k \<le> n \<Longrightarrow> n < 2 ^ Suc k \<Longrightarrow> log2_floor n = k"
proof (induction k arbitrary: n)
  case 0
  then show ?case by (simp add: log2_floor.simps [of n])
next
  case (Suc k)
  from Suc.prems have "2 ^ k \<le> n div 2" "n div 2 < 2 ^ Suc k" by auto
  then have "log2_floor (n div 2) = k" by (rule Suc.IH)
  moreover have "(2::nat) \<le> 2 ^ Suc k" by simp
  with Suc.prems have "\<not> n < 2" by linarith
  ultimately show ?case by (simp add: log2_floor.simps [of n])
qed

text \<open>
  Five seconds are five seconds and half a second before zero is zero; from about 2^34
  seconds on the double has no room for the microseconds, and 999999 of them round up.
\<close>

lemma total_seconds_int_examples:
  "total_seconds_int 5000000 = 5"
  "total_seconds_int 999999 = 0"
  "total_seconds_int (- 500000) = 0"
  "total_seconds_int (- 1500000) = - 1"
  "total_seconds_int (2 ^ 35 * 1000000 + 999999) = 2 ^ 35 + 1"
proof -
  have a: "log2_floor 5 = 2" by (rule log2_floor_eq) simp_all
  have b: "log2_floor (Suc 0) = 0" by (rule log2_floor_eq) simp_all
  have c: "log2_floor 34359738368 = 35" by (rule log2_floor_eq) simp_all
  show "total_seconds_int 5000000 = 5"
    by (simp add: total_seconds_int_def double_seconds_def a round_half_even_def)
  show "total_seconds_int 999999 = 0"
    by (simp add: total_seconds_int_def double_seconds_def)
  show "total_seconds_int (- 500000) = 0"
    by (simp add: total_seconds_int_def double_seconds_def)
  show "total_seconds_int (- 1500000) = - 1"
    by (simp add: total_seconds_int_def double_seconds_def b round_half_even_def)
  show "total_seconds_int (2 ^ 35 * 1000000 + 999999) = 2 ^ 35 + 1"
    by (simp add: total_seconds_int_def double_seconds_def c round_half_even_def)
qed

lemma str_int_digit: "0 \<le> i \<Longrightarrow> i < 10 \<Longrightarrow> str_int i = [digit_char (nat i)]"
  by (auto simp: str_int_def str_nat.simps [of "nat i"])

lemma find_char_nth: "distinct xs \<Longrightarrow> i < length xs \<Longrightarrow> find_char (xs ! i) xs = Some i"
proof (induction xs arbitrary: i)
  case Nil
  then show ?case by simp
next
  case (Cons x xs)
  show ?case
  proof (cases i)
    case 0
    then show ?thesis by simp
  next
    case (Suc j)
    with Cons.prems have "xs ! j \<in> set xs" "x \<notin> set xs" by auto
    then have "x \<noteq> xs ! j" by blast
    with Cons Suc show ?thesis by simp
  qed
qed

lemma find_digit_char: "find_char (digit_char d) ''0123456789'' = Some (d mod 10)"
  unfolding digit_char_def by (rule find_char_nth) simp_all

lemma parse_digits_append:
  "parse_digits acc (xs @ ys) =
     (case parse_digits acc xs of None \<Rightarrow> None | Some a \<Rightarrow> parse_digits a ys)"
  by (induction xs arbitrary: acc) (simp_all split: option.splits del: find_char.simps)

lemma parse_digits_str_nat: "parse_digits 0 (str_nat n) = Some n"
proof (induction n rule: str_nat.induct)
  case (1 n)
  show ?case
  proof (cases "n < 10")
    case True
    then show ?thesis by (simp add: str_nat.simps [of n] find_digit_char del: find_char.simps)
  next
    case False
    with 1 have "parse_digits 0 (str_nat (n div 10)) = Some (n div 10)" by simp
    with False show ?thesis
      by (simp add: str_nat.simps [of n] parse_digits_append find_digit_char del: find_char.simps)
  qed
qed

lemma parse_decimal_str_int: "0 \<le> i \<Longrightarrow> parse_decimal (str_int i) = Some i"
proof -
  assume i: "0 \<le> i"
  have p: "parse_digits 0 (str_nat (nat i)) = Some (nat i)" by (rule parse_digits_str_nat)
  obtain c cs where s: "str_nat (nat i) = c # cs"
    using p by (cases "str_nat (nat i)") (auto simp: str_nat.simps [of "nat i"])
  have "find_char CHR ''-'' ''0123456789'' = None" by simp
  moreover from p s have "find_char c ''0123456789'' \<noteq> None"
    by (simp split: option.splits del: find_char.simps)
  ultimately have "c \<noteq> CHR ''-''" by metis
  with i p s show ?thesis by (simp add: parse_decimal_def str_int_def del: parse_digits.simps)
qed

section \<open>Facts about the store and the calls\<close>

lemma refusal_simps [simp]:
  "refusal (EXISTS k) = None"
  "refusal (GET k) = None"
  "refusal (DEL ks) = None"
  "refusal (MGET ks) = None"
  "refusal (SCAN pat cnt) = None"
  "refusal (SET k v None kt) = None"
  "refusal (SET k v (Some e) kt)
     = (if seconds_of e \<le> 0 then Some ''invalid expire time in set command'' else None)"
  "refusal (RAW [''GETDEL'', k]) = None"
  by (simp_all add: refusal_def)

lemma serve_not_refused:
  "refusal c = None \<Longrightarrow> (\<forall>m. fst (serve c es) \<noteq> Error m)"
  by (cases c) (auto simp: serve_def split: option.splits if_splits)

lemma serve_refused: "refusal c = Some m \<Longrightarrow> serve c es = (Error m, es)"
  by (simp add: serve_def)

lemma client_call_eq:
  "client_call c s =
     ((case refusal c of
         Some m \<Rightarrow> Inl (ResponseError m)
       | None \<Rightarrow> Inr (fst (serve c (entries (conn s))))),
      s\<lparr>conn := \<lparr>entries = snd (serve c (entries (conn s))),
                  round_trips = round_trips (conn s) @ [Single c]\<rparr>\<rparr>)"
proof (cases "refusal c")
  case None
  from serve_not_refused [OF this, of "entries (conn s)"] None show ?thesis
    by (simp add: client_call_def split_def Let_def split: reply.splits)
next
  case (Some m)
  then show ?thesis by (simp add: client_call_def serve_refused)
qed

lemma serve_EXISTS: "serve (EXISTS k) es = (Integer (if k \<in> fst ` set es then 1 else 0), es)"
  by (simp add: serve_def)

lemma serve_SET:
  "serve (SET k v ex kt) es
     = (case refusal (SET k v ex kt) of Some m \<Rightarrow> (Error m, es) | None \<Rightarrow> (Ok, upsert k v es))"
  by (simp add: serve_def split: option.splits)

lemma serve_GET: "serve (GET k) es = ((case map_of es k of None \<Rightarrow> Nil | Some v \<Rightarrow> Bulk v), es)"
  by (simp add: serve_def)

lemma serve_GETDEL:
  "serve (RAW [''GETDEL'', k]) es =
     (case map_of es k of None \<Rightarrow> (Nil, es) | Some v \<Rightarrow> (Bulk v, remove_keys [k] es))"
  by (simp add: serve_def split: option.splits)

lemma serve_SCAN:
  "serve (SCAN pat cnt) es
     = (Keys (if pat = ''*'' then map fst es else filter (glob pat) (map fst es)), es)"
  by (simp add: serve_def)

lemma serve_MGET: "serve (MGET ks) es = (Array (map (map_of es) ks), es)"
  by (simp add: serve_def)

lemma refusal_setdefault:
  "refusal (RAW (''SET'' # k # v # ''NX'' # ''GET'' # setdefault_ttl s)) = None"
proof -
  have "\<And>n::int. 1 \<le> n \<Longrightarrow> parse_decimal (str_int n) = Some n"
    by (rule parse_decimal_str_int) simp
  then have "\<And>e. parse_decimal (str_int (max 1 (seconds_of e))) = Some (max 1 (seconds_of e))"
    by simp
  then show ?thesis
    by (simp add: refusal_def setdefault_ttl_def split: option.splits)
qed

lemma serve_setdefault:
  "serve (RAW (''SET'' # k # v # ''NX'' # ''GET'' # setdefault_ttl s)) es =
     (case map_of es k of None \<Rightarrow> (Nil, upsert k v es) | Some old \<Rightarrow> (Bulk old, es))"
  by (simp add: serve_def refusal_setdefault split: option.splits)

lemma map_of_upsert: "map_of (upsert k v es) = (map_of es)(k \<mapsto> v)"
  by (induction es) auto

lemma init_fields [simp]:
  "namespace (init ns ex pe rk r srv) = ns"
  "expire (init ns ex pe rk r srv) = ex"
  "preserve_expiration (init ns ex pe rk r srv) = pe"
  "raise_key_error_delete (init ns ex pe rk r srv) = rk"
  "valkey (init ns ex pe rk r srv) = Client"
  "temp_valkey (init ns ex pe rk r srv) = Null"
  "batch_size (init ns ex pe rk r srv) = 200"
  "rt (init ns ex pe rk r srv) = r"
  "conn (init ns ex pe rk r srv) = srv"
  by (simp_all add: init_def)

lemma max_string_size_init: "max_string_size (init ns ex pe rk r srv) = 524288000"
  by (simp add: init_def)

lemma entries_empty_server [simp]: "entries empty_server = []"
  and round_trips_empty_server [simp]: "round_trips empty_server = []"
  by (simp_all add: empty_server_def)

lemma valid_input_str: "valid_input s (PyStr x) = (length x < max_string_size s)"
  by (simp add: valid_input_def)

lemma valid_input_other: "type_name v \<noteq> ''str'' \<Longrightarrow> valid_input s v"
  by (simp add: valid_input_def)

lemma valid_input_init [simp]:
  "valid_input (init ns ex pe rk r srv) (PyStr x) = (length x < 524288000)"
  by (simp add: valid_input_str max_string_size_init)

lemma format_key_str: "format_key s (PyStr k) = namespace s @ '':'' @ k"
  by (simp add: format_key_def py_str_def)

lemma format_key_conn [simp]: "format_key (s\<lparr>conn := c\<rparr>) key = format_key s key"
  by (simp add: format_key_def)

lemma transform_conn [simp]: "transform (s\<lparr>conn := c\<rparr>) x = transform s x"
  by (simp add: transform_def split: option.splits)

lemma format_value_conn [simp]: "format_value (s\<lparr>conn := c\<rparr>) v = format_value s v"
  by (simp add: format_value_def Let_def split: option.splits)

lemma valid_input_fields [simp]:
  "valid_input (s\<lparr>valkey := h\<rparr>) v = valid_input s v"
  "valid_input (s\<lparr>temp_valkey := h\<rparr>) v = valid_input s v"
  "valid_input (s\<lparr>expire := e\<rparr>) v = valid_input s v"
  "valid_input (s\<lparr>conn := c\<rparr>) v = valid_input s v"
  by (simp_all add: valid_input_def split: pyval.splits)

lemma format_key_fields [simp]:
  "format_key (s\<lparr>valkey := h\<rparr>) k = format_key s k"
  "format_key (s\<lparr>temp_valkey := h\<rparr>) k = format_key s k"
  "format_key (s\<lparr>expire := e\<rparr>) k = format_key s k"
  by (simp_all add: format_key_def)

lemma format_value_fields [simp]:
  "format_value (s\<lparr>valkey := h\<rparr>) v = format_value s v"
  "format_value (s\<lparr>temp_valkey := h\<rparr>) v = format_value s v"
  "format_value (s\<lparr>expire := e\<rparr>) v = format_value s v"
  by (simp_all add: format_value_def Let_def split: option.splits)

lemma transform_fields [simp]:
  "transform (s\<lparr>valkey := h\<rparr>) x = transform s x"
  "transform (s\<lparr>temp_valkey := h\<rparr>) x = transform s x"
  "transform (s\<lparr>expire := e\<rparr>) x = transform s x"
  by (simp_all add: transform_def split: option.splits)

text \<open>The operations as one step on the entries and the record of what was sent.\<close>

lemma store_set_no_ValueError: "fst (store_set s fk fv) \<noteq> Inl (ValueError m)"
  by (auto simp: store_set_def valkey_call_def client_call_eq
           split: prod.splits handle.splits if_splits sum.splits option.splits)

lemma store_valid_eq:
  assumes "valid_input s key" and "valid_input s v"
  shows "store s key v =
     (let fk = format_key s key; fv = format_value s v;
          s1 = (if preserve_expiration s then snd (client_call (EXISTS fk) s) else s);
          c = (if preserve_expiration s \<and> fk \<in> fst ` set (entries (conn s))
               then SET fk fv None True
               else SET fk fv (expire s) False)
      in case valkey s of
           Null \<Rightarrow> (Inl (AttributeError ''NoneType''), s1)
         | Client \<Rightarrow>
             ((case refusal c of Some m \<Rightarrow> Inl (ResponseError m) | None \<Rightarrow> Inr ()),
              snd (client_call c s1))
         | Pipeline q \<Rightarrow> (Inr (), s1\<lparr>valkey := Pipeline (q @ [c])\<rparr>))"
  using assms
  by (simp add: store_def store_set_def valkey_call_def client_call_eq serve_EXISTS Let_def
           split: handle.splits option.splits)

lemma create_set_get_command_eq:
  "create_set_get_command s fk fv
     = (''SET'' # fk # fv # ''NX'' # ''GET'' # setdefault_ttl s, [(''get'', True)])"
  by (auto simp: create_set_get_command_def setdefault_ttl_def seconds_of_def Let_def max_def
           split: option.splits expiry.splits)

lemma setdefault_eq:
  "setdefault s key d =
     (let fk = format_key s key; fv = format_value s d; es = entries (conn s)
      in ((case map_of es fk of None \<Rightarrow> Inr d | Some old \<Rightarrow> transform s old),
          s\<lparr>conn := \<lparr>entries = (case map_of es fk of None \<Rightarrow> upsert fk fv es | Some old \<Rightarrow> es),
                      round_trips = round_trips (conn s)
                         @ [Single (RAW (''SET'' # fk # fv # ''NX'' # ''GET'' # setdefault_ttl s))]\<rparr>\<rparr>))"
  by (simp add: setdefault_def create_set_get_command_eq client_call_eq refusal_setdefault
        serve_setdefault Let_def split: option.splits)

lemma pop_eq:
  "pop s key d =
     (let fk = format_key s key; es = entries (conn s)
      in ((case map_of es fk of
             Some x \<Rightarrow> transform s x
           | None \<Rightarrow> (case d of Some v \<Rightarrow> Inr v | None \<Rightarrow> Inl (KeyError (PyStr fk)))),
          s\<lparr>conn := \<lparr>entries = (case map_of es fk of None \<Rightarrow> es | Some x \<Rightarrow> remove_keys [fk] es),
                      round_trips = round_trips (conn s) @ [Single (RAW [''GETDEL'', fk])]\<rparr>\<rparr>))"
  by (simp add: pop_def client_call_eq serve_GETDEL Let_def split: option.splits)

lemma load_eq:
  "load s key =
     (let fk = format_key s key; es = entries (conn s);
          s1 = s\<lparr>conn := \<lparr>entries = es, round_trips = round_trips (conn s) @ [Single (GET fk)]\<rparr>\<rparr>
      in case map_of es fk of
           None \<Rightarrow> (Inr (False, PyNone), s1)
         | Some x \<Rightarrow> (case transform s x of Inl e \<Rightarrow> (Inl e, s1) | Inr v \<Rightarrow> (Inr (True, v), s1)))"
  by (simp add: load_def client_call_eq serve_GET Let_def split: option.splits)

text \<open>The example runtime on text and on integers.\<close>

lemma example_format_key [simp]:
  "format_key (init ''main'' ex pe rk example_runtime srv) (PyStr k) = ''main:'' @ k"
  by (simp add: format_key_str)

lemma example_format_value_str [simp]:
  "format_value (init ns ex pe rk example_runtime srv) (PyStr x) = ''str:'' @ x"
  by (simp add: format_value_def example_runtime_def)

lemma example_transform_str [simp]:
  "transform (init ns ex pe rk example_runtime srv) (CHR ''s'' # CHR ''t'' # CHR ''r'' # CHR '':'' # x)
     = Inr (PyStr x)"
  by (simp add: transform_def example_runtime_def)

lemma example_int_round_trip:
  "0 \<le> i \<Longrightarrow>
     transform (init ns ex pe rk example_runtime srv)
       (format_value (init ns ex pe rk example_runtime srv) (PyInt i)) = Inr (PyInt i)"
  by (simp add: format_value_def transform_def example_runtime_def parse_int_def
        parse_decimal_str_int)

section \<open>Size validation on store\<close>

text \<open>
  A string at or over the limit is refused before anything is sent: the container comes
  back as it was, connection included.
\<close>

lemma store_invalid_no_command:
  "\<not> valid_input s v \<or> \<not> valid_input s key \<Longrightarrow>
     store s key v
       = (Inl (ValueError ''Invalid input value or key size exceeded the maximum limit.''), s)"
  by (simp add: store_def)

lemma store_over_limit_rejected:
  "max_string_size s \<le> length x \<Longrightarrow>
     fst (store s key (PyStr x))
       = Inl (ValueError ''Invalid input value or key size exceeded the maximum limit.'')
   \<and> fst (store s (PyStr x) v)
       = Inl (ValueError ''Invalid input value or key size exceeded the maximum limit.'')"
  by (simp add: store_def valid_input_str)

text \<open>
  Claim C1. A string of exactly \<open>maxStringSize\<close> = 500 * 2^20 characters is to be
  accepted as key and as value, and one character more refused before any command is
  sent. \<open>_valid_input\<close> compares with \<open><\<close>, so the string of exactly 500 * 2^20
  characters is refused as well, as a value and as a key, with nothing sent.
\<close>

theorem store_rejects_exact_max_size:
  "store (init ns ex pe rk r srv) key (PyStr (replicate (500 * 2 ^ 20) c))
     = (Inl (ValueError ''Invalid input value or key size exceeded the maximum limit.''),
        init ns ex pe rk r srv)
   \<and> store (init ns ex pe rk r srv) (PyStr (replicate (500 * 2 ^ 20) c)) v
     = (Inl (ValueError ''Invalid input value or key size exceeded the maximum limit.''),
        init ns ex pe rk r srv)"
  by (simp add: store_def valid_input_str max_string_size_init)

theorem store_rejects_exact_max_size_witness:
  "store (init ''main'' None False False example_runtime empty_server) (PyStr ''key'')
       (PyStr (replicate (500 * 2 ^ 20) CHR ''v''))
     = (Inl (ValueError ''Invalid input value or key size exceeded the maximum limit.''),
        init ''main'' None False False example_runtime empty_server)
   \<and> store (init ''main'' None False False example_runtime empty_server)
       (PyStr (replicate (500 * 2 ^ 20) CHR ''k'')) (PyStr ''value'')
     = (Inl (ValueError ''Invalid input value or key size exceeded the maximum limit.''),
        init ''main'' None False False example_runtime empty_server)"
  using store_rejects_exact_max_size [of "''main''" None False False example_runtime empty_server
      "PyStr ''key''" "CHR ''v''"]
    store_rejects_exact_max_size [of "''main''" None False False example_runtime empty_server
      _ "CHR ''k''" "PyStr ''value''"]
  by blast

text \<open>
  Claim C9. The size check looks at values whose type name is \<open>str\<close> only: for a key
  and a value of any other type, both pass validation whatever their size, \<open>_store\<close>
  goes straight to the store command, and no \<open>ValueError\<close> comes out of it.
\<close>

theorem store_no_size_check_non_str:
  assumes "type_name key \<noteq> ''str''" and "type_name v \<noteq> ''str''"
  shows "valid_input s key \<and> valid_input s v
       \<and> store s key v = store_set s (format_key s key) (format_value s v)
       \<and> (\<forall>m. fst (store s key v) \<noteq> Inl (ValueError m))"
  using assms by (simp add: store_def valid_input_other store_set_no_ValueError)

theorem store_no_size_check_non_str_witness:
  "type_name (PyInt 7) \<noteq> ''str''
   \<and> type_name (PyInt 42) \<noteq> ''str''
   \<and> store (init ''main'' None False False example_runtime empty_server) (PyInt 7) (PyInt 42)
      = store_set (init ''main'' None False False example_runtime empty_server) ''main:7'' ''int:42''
   \<and> fst (store (init ''main'' None False False example_runtime empty_server) (PyInt 7) (PyInt 42))
      \<noteq> Inl (ValueError ''Invalid input value or key size exceeded the maximum limit.'')"
proof -
  let ?s = "init ''main'' None False False example_runtime empty_server"
  have k: "type_name (PyInt 7) \<noteq> ''str''" by simp
  have v: "type_name (PyInt 42) \<noteq> ''str''" by simp
  have fk: "format_key ?s (PyInt 7) = ''main:7''"
    by (simp add: format_key_def py_str_def str_int_digit digit_char_def)
  have "str_nat 42 = ''42''"
    by (simp add: str_nat.simps [of 42] str_nat.simps [of 4] digit_char_def)
  then have fv: "format_value ?s (PyInt 42) = ''int:42''"
    by (simp add: format_value_def example_runtime_def str_int_def)
  have eq: "store ?s (PyInt 7) (PyInt 42)
              = store_set ?s (format_key ?s (PyInt 7)) (format_value ?s (PyInt 42))"
    and no: "fst (store ?s (PyInt 7) (PyInt 42))
               \<noteq> Inl (ValueError ''Invalid input value or key size exceeded the maximum limit.'')"
    using store_no_size_check_non_str [OF k v, of ?s] by blast+
  from eq have "store ?s (PyInt 7) (PyInt 42) = store_set ?s ''main:7'' ''int:42''"
    by (simp only: fk fv)
  with no k v show ?thesis by blast
qed

section \<open>The plain store\<close>

text \<open>
  Claim C7. A plain store of valid inputs issues one \<open>SET\<close> on \<open>self.valkey\<close>: with
  \<open>keepttl\<close> when \<open>preserve_expiration\<close> is set and the key exists, otherwise with
  \<open>ex\<close> the configured \<open>expire\<close>, which is no \<open>EX\<close> at all when \<open>expire\<close> is
  \<open>None\<close>. On the client the command is a round trip, after the \<open>EXISTS\<close> question
  when that was asked, and the call raises what the store answers when it refuses the
  command; on a pipeline handle the command is queued.
\<close>

theorem plain_store_command:
  assumes "valid_input s key" and "valid_input s v"
  shows "(let fk = format_key s key; fv = format_value s v;
              c = (if preserve_expiration s \<and> fk \<in> fst ` set (entries (conn s))
                   then SET fk fv None True
                   else SET fk fv (expire s) False);
              asked = (if preserve_expiration s then [Single (EXISTS fk)] else []);
              (r, s') = store s key v
          in (valkey s = Client \<longrightarrow>
                r = (case refusal c of Some m \<Rightarrow> Inl (ResponseError m) | None \<Rightarrow> Inr ())
                \<and> valkey s' = Client
                \<and> round_trips (conn s') = round_trips (conn s) @ asked @ [Single c])
           \<and> (\<forall>q. valkey s = Pipeline q \<longrightarrow>
                r = Inr () \<and> valkey s' = Pipeline (q @ [c])
                \<and> round_trips (conn s') = round_trips (conn s) @ asked))"
  using assms
  by (simp add: store_valid_eq client_call_eq serve_EXISTS Let_def split: handle.splits)

theorem plain_store_command_witness:
  "valid_input (init ''main'' (Some (Seconds 60)) True False example_runtime
                 \<lparr>entries = [(''main:a'', ''str:old'')], round_trips = []\<rparr>) (PyStr ''a'')
   \<and> valid_input (init ''main'' (Some (Seconds 60)) True False example_runtime
                 \<lparr>entries = [(''main:a'', ''str:old'')], round_trips = []\<rparr>) (PyStr ''x'')
   \<and> fst (store (init ''main'' (Some (Seconds 60)) True False example_runtime
                 \<lparr>entries = [(''main:a'', ''str:old'')], round_trips = []\<rparr>) (PyStr ''a'') (PyStr ''x''))
       = Inr ()
   \<and> round_trips (conn (snd (store (init ''main'' (Some (Seconds 60)) True False example_runtime
                 \<lparr>entries = [(''main:a'', ''str:old'')], round_trips = []\<rparr>) (PyStr ''a'') (PyStr ''x''))))
       = [Single (EXISTS ''main:a''), Single (SET ''main:a'' ''str:x'' None True)]
   \<and> fst (store (init ''main'' (Some (Seconds 60)) True False example_runtime
                 \<lparr>entries = [], round_trips = []\<rparr>) (PyStr ''a'') (PyStr ''x''))
       = Inr ()
   \<and> round_trips (conn (snd (store (init ''main'' (Some (Seconds 60)) True False example_runtime
                 \<lparr>entries = [], round_trips = []\<rparr>) (PyStr ''a'') (PyStr ''x''))))
       = [Single (EXISTS ''main:a''), Single (SET ''main:a'' ''str:x'' (Some (Seconds 60)) False)]"
proof -
  let ?s = "init ''main'' (Some (Seconds 60)) True False example_runtime
                 \<lparr>entries = [(''main:a'', ''str:old'')], round_trips = []\<rparr>"
  let ?t = "init ''main'' (Some (Seconds 60)) True False example_runtime
                 \<lparr>entries = [], round_trips = []\<rparr>"
  have k: "valid_input ?s (PyStr ''a'')" "valid_input ?t (PyStr ''a'')" by simp_all
  have v: "valid_input ?s (PyStr ''x'')" "valid_input ?t (PyStr ''x'')" by simp_all
  have "fst (store ?s (PyStr ''a'') (PyStr ''x'')) = Inr ()
      \<and> round_trips (conn (snd (store ?s (PyStr ''a'') (PyStr ''x''))))
       = [Single (EXISTS ''main:a''), Single (SET ''main:a'' ''str:x'' None True)]"
    using plain_store_command [OF k(1) v(1)] by (simp add: Let_def split_def)
  moreover have "fst (store ?t (PyStr ''a'') (PyStr ''x'')) = Inr ()
      \<and> round_trips (conn (snd (store ?t (PyStr ''a'') (PyStr ''x''))))
       = [Single (EXISTS ''main:a''), Single (SET ''main:a'' ''str:x'' (Some (Seconds 60)) False)]"
    using plain_store_command [OF k(2) v(2)] by (simp add: Let_def split_def seconds_of_def)
  ultimately show ?thesis using k v by simp
qed

section \<open>Expiry on the write paths\<close>

lemma setdefault_ttl_clamped:
  "\<not> preserve_expiration s \<Longrightarrow> expire s = Some e \<Longrightarrow>
     \<exists>n. 1 \<le> n \<and> setdefault_ttl s = [''EX'', str_int n]"
  by (auto simp: setdefault_ttl_def intro!: exI [of _ "max 1 (seconds_of e)"])

text \<open>
  Claim C4. Every write path is to send an expiry of at least 1 when \<open>expire\<close> is zero or
  negative. The command of \<open>setdefault\<close> does (\<open>setdefault_ttl_clamped\<close>); the plain
  store hands \<open>ex=self.expire\<close> to the client as it is, so with \<open>expire\<close> = n \<le> 0 the
  \<open>SET\<close> that is sent carries n.
\<close>

theorem plain_store_sends_nonpositive_ttl:
  assumes "n \<le> 0"
  shows "round_trips (conn (snd (store (init ns (Some (Seconds n)) False rk r srv) (PyStr ''a'') (PyStr ''x''))))
           = round_trips srv @ [Single (SET (ns @ '':a'')
                 (format_value (init ns (Some (Seconds n)) False rk r srv) (PyStr ''x''))
                 (Some (Seconds n)) False)]"
proof -
  let ?s = "init ns (Some (Seconds n)) False rk r srv"
  have "valid_input ?s (PyStr ''a'')" "valid_input ?s (PyStr ''x'')" by simp_all
  from store_valid_eq [OF this] show ?thesis
    by (simp add: Let_def format_key_str client_call_eq)
qed

theorem plain_store_sends_nonpositive_ttl_witness:
  "(0::int) \<le> 0
   \<and> round_trips (conn (snd (store (init ''main'' (Some (Seconds 0)) False False example_runtime empty_server)
         (PyStr ''a'') (PyStr ''x''))))
       = [Single (SET ''main:a'' ''str:x'' (Some (Seconds 0)) False)]"
  using plain_store_sends_nonpositive_ttl [of 0 "''main''" False example_runtime empty_server]
  by simp

text \<open>The store refuses that command, and the plain store raises what it answers.\<close>

lemma plain_store_nonpositive_ttl_refused:
  assumes "n \<le> 0"
  shows "store (init ns (Some (Seconds n)) False rk r srv) (PyStr ''a'') (PyStr ''x'')
           = (Inl (ResponseError ''invalid expire time in set command''),
              (init ns (Some (Seconds n)) False rk r srv)
                \<lparr>conn := \<lparr>entries = entries srv,
                           round_trips = round_trips srv @ [Single (SET (ns @ '':a'')
                             (format_value (init ns (Some (Seconds n)) False rk r srv) (PyStr ''x''))
                             (Some (Seconds n)) False)]\<rparr>\<rparr>)"
proof -
  let ?s = "init ns (Some (Seconds n)) False rk r srv"
  have "valid_input ?s (PyStr ''a'')" "valid_input ?s (PyStr ''x'')" by simp_all
  from store_valid_eq [OF this] assms show ?thesis
    by (simp add: Let_def format_key_str client_call_eq serve_SET seconds_of_def)
qed

section \<open>setdefault\<close>

text \<open>
  \<open>setdefault\<close> sends one command, on the client even inside a pipeline scope:
  \<open>SET key value NX GET\<close> followed by \<open>setdefault_ttl\<close>. It returns the decoded
  value of a key that was present and the caller's default otherwise; after a call on an
  absent key, a second call with any other default returns the decoded envelope of the
  first default and leaves the entries alone.
\<close>

lemma setdefault_sends_one_command:
  "(let fk = format_key s key; fv = format_value s d;
        (r, s') = setdefault s key d
    in round_trips (conn s')
         = round_trips (conn s) @ [Single (RAW ([''SET'', fk, fv, ''NX'', ''GET''] @ setdefault_ttl s))]
     \<and> valkey s' = valkey s
     \<and> r = (case map_of (entries (conn s)) fk of Some old \<Rightarrow> transform s old | None \<Rightarrow> Inr d)
     \<and> (map_of (entries (conn s)) fk = None \<longrightarrow>
          entries (conn s') = upsert fk fv (entries (conn s))
          \<and> (\<forall>d'. fst (setdefault s' key d') = transform s fv
                 \<and> entries (conn (snd (setdefault s' key d'))) = entries (conn s'))))"
  by (auto simp: setdefault_eq Let_def map_of_upsert split: option.splits)

lemma setdefault_second_call_example:
  "fst (setdefault
       (init ''main'' (Some (Seconds 0)) False False example_runtime empty_server)
       (PyStr ''a'') (PyStr ''x'')) = Inr (PyStr ''x'')
   \<and> round_trips (conn (snd (setdefault
       (init ''main'' (Some (Seconds 0)) False False example_runtime empty_server)
       (PyStr ''a'') (PyStr ''x''))))
     = [Single (RAW [''SET'', ''main:a'', ''str:x'', ''NX'', ''GET'', ''EX'', ''1''])]
   \<and> fst (setdefault (snd (setdefault
       (init ''main'' (Some (Seconds 0)) False False example_runtime empty_server)
       (PyStr ''a'') (PyStr ''x''))) (PyStr ''a'') (PyStr ''y'')) = Inr (PyStr ''x'')"
proof -
  let ?s = "init ''main'' (Some (Seconds 0)) False False example_runtime empty_server"
  have ttl: "setdefault_ttl ?s = [''EX'', ''1'']"
    by (simp add: setdefault_ttl_def seconds_of_def str_int_digit digit_char_def)
  have absent: "map_of (entries (conn ?s)) (format_key ?s (PyStr ''a'')) = None" by simp
  obtain r s' where rs: "setdefault ?s (PyStr ''a'') (PyStr ''x'') = (r, s')"
    by (cases "setdefault ?s (PyStr ''a'') (PyStr ''x'')")
  from setdefault_sends_one_command [of ?s "PyStr ''a''" "PyStr ''x''"] rs absent
  have a: "round_trips (conn s') = [Single (RAW [''SET'', ''main:a'', ''str:x'', ''NX'', ''GET'', ''EX'', ''1''])]"
    and b: "r = Inr (PyStr ''x'')"
    and c: "fst (setdefault s' (PyStr ''a'') (PyStr ''y'')) = Inr (PyStr ''x'')"
    by (simp_all add: Let_def ttl)
  from a b c rs show ?thesis by simp
qed

text \<open>
  Claim C6. The conditional command of \<open>setdefault\<close> is to take the same
  \<open>EX\<close>/\<open>KEEPTTL\<close> decision as the plain store. With \<open>preserve_expiration\<close> set, a
  positive \<open>expire\<close> and the key absent, the plain store asks \<open>EXISTS\<close> and writes the
  key with \<open>EX\<close> the configured \<open>expire\<close>; \<open>setdefault\<close> writes the same key and
  value with \<open>KEEPTTL\<close>, which on a key that did not exist keeps nothing: the key is
  stored without any expiry.
\<close>

theorem setdefault_keepttl_on_absent_key:
  assumes "preserve_expiration s" and "expire s = Some e" and "0 < seconds_of e"
    and "valkey s = Client"
    and "valid_input s key" and "valid_input s d"
    and "map_of (entries (conn s)) (format_key s key) = None"
  shows "(let fk = format_key s key; fv = format_value s d
          in setdefault s key d
               = (Inr d, s\<lparr>conn := \<lparr>entries = upsert fk fv (entries (conn s)),
                                     round_trips = round_trips (conn s)
                                       @ [Single (RAW [''SET'', fk, fv, ''NX'', ''GET'', ''KEEPTTL''])]\<rparr>\<rparr>)
           \<and> store s key d
               = (Inr (), s\<lparr>conn := \<lparr>entries = upsert fk fv (entries (conn s)),
                                      round_trips = round_trips (conn s)
                                        @ [Single (EXISTS fk), Single (SET fk fv (Some e) False)]\<rparr>\<rparr>)
           \<and> ttl_arguments (RAW [''SET'', fk, fv, ''NX'', ''GET'', ''KEEPTTL'']) = [''KEEPTTL'']
           \<and> ttl_arguments (SET fk fv (Some e) False) = [''EX'', str_int (seconds_of e)])"
proof -
  from assms(7) have absent: "format_key s key \<notin> fst ` set (entries (conn s))"
    by (simp add: map_of_eq_None_iff)
  have ttl: "setdefault_ttl s = [''KEEPTTL'']"
    using assms(1) by (simp add: setdefault_ttl_def)
  have a: "setdefault s key d
         = (Inr d, s\<lparr>conn := \<lparr>entries = upsert (format_key s key) (format_value s d) (entries (conn s)),
                               round_trips = round_trips (conn s)
                                 @ [Single (RAW [''SET'', format_key s key, format_value s d,
                                                 ''NX'', ''GET'', ''KEEPTTL''])]\<rparr>\<rparr>)"
    using assms(7) by (simp add: setdefault_eq Let_def ttl)
  have b: "store s key d
         = (Inr (), s\<lparr>conn := \<lparr>entries = upsert (format_key s key) (format_value s d) (entries (conn s)),
                                round_trips = round_trips (conn s)
                                  @ [Single (EXISTS (format_key s key)),
                                     Single (SET (format_key s key) (format_value s d) (Some e) False)]\<rparr>\<rparr>)"
    using assms(1-4) absent
    by (simp add: store_valid_eq [OF assms(5,6)] Let_def client_call_eq serve_EXISTS serve_SET)
  have c: "ttl_arguments (SET (format_key s key) (format_value s d) (Some e) False)
             = [''EX'', str_int (seconds_of e)]"
    by (simp add: ttl_arguments_def)
  from a b c show ?thesis by (simp add: Let_def ttl_arguments_def)
qed

theorem setdefault_keepttl_on_absent_key_witness:
  "setdefault (init ''main'' (Some (Seconds 5)) True False example_runtime empty_server)
       (PyStr ''a'') (PyStr ''x'')
     = (Inr (PyStr ''x''),
        init ''main'' (Some (Seconds 5)) True False example_runtime
          \<lparr>entries = [(''main:a'', ''str:x'')],
           round_trips = [Single (RAW [''SET'', ''main:a'', ''str:x'', ''NX'', ''GET'', ''KEEPTTL''])]\<rparr>)
   \<and> store (init ''main'' (Some (Seconds 5)) True False example_runtime empty_server)
       (PyStr ''a'') (PyStr ''x'')
     = (Inr (),
        init ''main'' (Some (Seconds 5)) True False example_runtime
          \<lparr>entries = [(''main:a'', ''str:x'')],
           round_trips = [Single (EXISTS ''main:a''),
                          Single (SET ''main:a'' ''str:x'' (Some (Seconds 5)) False)]\<rparr>)
   \<and> ttl_arguments (RAW [''SET'', ''main:a'', ''str:x'', ''NX'', ''GET'', ''KEEPTTL'']) = [''KEEPTTL'']
   \<and> ttl_arguments (SET ''main:a'' ''str:x'' (Some (Seconds 5)) False) = [''EX'', ''5'']"
proof -
  let ?s = "init ''main'' (Some (Seconds 5)) True False example_runtime empty_server"
  have h: "preserve_expiration ?s" "expire ?s = Some (Seconds 5)" "0 < seconds_of (Seconds 5)"
    "valkey ?s = Client" "valid_input ?s (PyStr ''a'')" "valid_input ?s (PyStr ''x'')"
    "map_of (entries (conn ?s)) (format_key ?s (PyStr ''a'')) = None"
    by (simp_all add: seconds_of_def)
  have five: "str_int (seconds_of (Seconds 5)) = ''5''"
    by (simp add: seconds_of_def str_int_digit digit_char_def)
  have upd: "\<And>es ts. ?s\<lparr>conn := \<lparr>entries = es, round_trips = ts\<rparr>\<rparr>
               = init ''main'' (Some (Seconds 5)) True False example_runtime
                   \<lparr>entries = es, round_trips = ts\<rparr>"
    by (simp add: init_def)
  from setdefault_keepttl_on_absent_key [OF h] show ?thesis
    by (simp add: Let_def five upd)
qed

text \<open>
  Claim C8. On an absent key \<open>setdefault\<close> returns the default it was given, not a
  decoded envelope; the \<open>get\<close> that follows returns the decoded envelope of that
  default, so the two agree exactly when decoding the encoded default gives it back. On
  a present key \<open>setdefault\<close> returns the decoded stored envelope.
\<close>

theorem setdefault_absent_returns_default_object:
  "(map_of (entries (conn s)) (format_key s key) = None \<longrightarrow>
      (case setdefault s key d of
         (r, s') \<Rightarrow> r = Inr d
            \<and> fst (get s' key x) = transform s (format_value s d)
            \<and> (fst (get s' key x) = r \<longleftrightarrow> transform s (format_value s d) = Inr d)))
   \<and> (\<forall>old. map_of (entries (conn s)) (format_key s key) = Some old \<longrightarrow>
         fst (setdefault s key d) = transform s old)"
  by (auto simp: setdefault_eq get_def load_eq Let_def map_of_upsert split: sum.splits)

theorem setdefault_absent_returns_default_object_witness:
  "fst (setdefault (init ''main'' None False False example_runtime empty_server) (PyStr ''a'') (PyStr ''x''))
      = Inr (PyStr ''x'')
   \<and> fst (get (snd (setdefault (init ''main'' None False False example_runtime empty_server)
                 (PyStr ''a'') (PyStr ''x''))) (PyStr ''a'') PyNone)
      = Inr (PyStr ''x'')
   \<and> fst (setdefault (init ''main'' None False False example_runtime
                 \<lparr>entries = [(''main:a'', ''str:old'')], round_trips = []\<rparr>) (PyStr ''a'') (PyStr ''x''))
      = Inr (PyStr ''old'')"
proof -
  let ?s = "init ''main'' None False False example_runtime empty_server"
  let ?t = "init ''main'' None False False example_runtime
                 \<lparr>entries = [(''main:a'', ''str:old'')], round_trips = []\<rparr>"
  have absent: "map_of (entries (conn ?s)) (format_key ?s (PyStr ''a'')) = None" by simp
  have present: "map_of (entries (conn ?t)) (format_key ?t (PyStr ''a'')) = Some ''str:old''" by simp
  have tr: "transform ?s (format_value ?s (PyStr ''x'')) = Inr (PyStr ''x'')" by simp
  have old: "transform ?t ''str:old'' = Inr (PyStr ''old'')" by simp
  obtain r s' where rs: "setdefault ?s (PyStr ''a'') (PyStr ''x'') = (r, s')"
    by (cases "setdefault ?s (PyStr ''a'') (PyStr ''x'')")
  from setdefault_absent_returns_default_object [of ?s "PyStr ''a''" "PyStr ''x''" PyNone] absent rs
  have a: "r = Inr (PyStr ''x'')" and b: "fst (get s' (PyStr ''a'') PyNone) = Inr (PyStr ''x'')"
    by (simp_all add: tr)
  from setdefault_absent_returns_default_object [of ?t "PyStr ''a''" "PyStr ''x''" PyNone] present
  have c: "fst (setdefault ?t (PyStr ''a'') (PyStr ''x'')) = Inr (PyStr ''old'')"
    by (simp add: old)
  from a b c rs show ?thesis by simp
qed

section \<open>Absent keys\<close>

text \<open>
  Claim C10. On an absent key \<open>pop\<close> without a default raises \<open>KeyError\<close> with the
  formatted key \<open>namespace:key\<close>, and \<open>__getitem__\<close> raises \<open>KeyError\<close> with the key
  as the caller gave it; the two errors are never the same.
\<close>

theorem absent_key_errors_differ:
  assumes "map_of (entries (conn s)) (format_key s key) = None"
  shows "fst (pop s key None) = Inl (KeyError (PyStr (format_key s key)))
       \<and> fst (getitem s key) = Inl (KeyError key)
       \<and> KeyError (PyStr (format_key s key)) \<noteq> KeyError key"
proof -
  have "PyStr (format_key s key) \<noteq> key"
  proof
    assume "PyStr (format_key s key) = key"
    then have "format_key s (PyStr (format_key s key)) = format_key s key" by simp
    then have "length (namespace s @ '':'' @ format_key s key) = length (format_key s key)"
      by (simp only: format_key_str)
    then show False by simp
  qed
  with assms show ?thesis
    by (simp add: pop_eq getitem_def load_eq Let_def)
qed

theorem absent_key_errors_differ_witness:
  "map_of (entries (conn (init ''main'' None False False example_runtime empty_server)))
       (format_key (init ''main'' None False False example_runtime empty_server) (PyStr ''missing'')) = None
   \<and> fst (pop (init ''main'' None False False example_runtime empty_server) (PyStr ''missing'') None)
       = Inl (KeyError (PyStr ''main:missing''))
   \<and> fst (getitem (init ''main'' None False False example_runtime empty_server) (PyStr ''missing''))
       = Inl (KeyError (PyStr ''missing''))"
proof -
  let ?s = "init ''main'' None False False example_runtime empty_server"
  have absent: "map_of (entries (conn ?s)) (format_key ?s (PyStr ''missing'')) = None" by simp
  from absent_key_errors_differ [OF absent] absent show ?thesis by simp
qed

section \<open>Pipeline scopes\<close>

lemma batches_append [simp]: "batches (xs @ ys) = batches xs @ batches ys"
  by (induction xs rule: batches.induct) auto

lemma queued_more_refl: "valkey s = Pipeline q \<Longrightarrow> queued_more s s"
  by (simp add: queued_more_def)

lemma queued_more_trans: "queued_more s s' \<Longrightarrow> queued_more s' s'' \<Longrightarrow> queued_more s s''"
  by (auto simp: queued_more_def)

lemma store_queued_more:
  "valkey s = Pipeline q \<Longrightarrow> queued_more s (snd (store s key v))"
  by (auto simp: store_def store_set_def valkey_call_def client_call_eq queued_more_def Let_def
           split: prod.splits)

lemma delitem_queued_more:
  "valkey s = Pipeline q \<Longrightarrow> queued_more s (snd (delitem s key))"
  by (auto simp: delitem_def valkey_call_def queued_more_def Let_def split: prod.splits)

lemma getitem_queued_more:
  "valkey s = Pipeline q \<Longrightarrow> queued_more s (snd (getitem s key))"
  by (auto simp: getitem_def load_eq queued_more_def Let_def split: prod.splits option.splits sum.splits)

lemma setdefault_queued_more:
  "valkey s = Pipeline q \<Longrightarrow> queued_more s (snd (setdefault s key v))"
  by (simp add: setdefault_eq queued_more_def Let_def)

text \<open>
  Whatever runs while a pipeline handle is in place and a handle is saved, nested scopes
  included, leaves both in place, only adds to the queue and sends no batch.
\<close>

lemma exec_queued_more:
  "(\<exists>q. valkey s = Pipeline q) \<longrightarrow> temp_valkey s \<noteq> Null \<longrightarrow> queued_more s (snd (exec c s))"
  "(\<exists>q. valkey s = Pipeline q) \<longrightarrow> temp_valkey s \<noteq> Null \<longrightarrow> queued_more s (snd (exec_block cs s))"
proof (induction c s and cs s rule: exec_exec_block.induct)
  case (1 key v s)
  then show ?case by (auto simp: setitem_def store_queued_more)
next
  case (2 key s)
  then show ?case by (auto simp: delitem_queued_more)
next
  case (3 key s)
  then show ?case
    using getitem_queued_more [of s _ key] by (auto split: prod.splits sum.splits)
next
  case (4 key v s)
  then show ?case
    using setdefault_queued_more [of s _ key v] by (auto split: prod.splits sum.splits)
next
  case (5 e s)
  then show ?case by (auto simp: queued_more_refl)
next
  case (6 body s)
  show ?case
  proof (intro impI)
    assume p: "\<exists>q. valkey s = Pipeline q" and t: "temp_valkey s \<noteq> Null"
    then have enter: "pipeline_enter s = (Inr False, s)" by (simp add: pipeline_enter_def)
    from 6 [OF enter [symmetric] refl] p t
    have "queued_more s (snd (exec_block body s))" by simp
    then show "queued_more s (snd (exec (With_pipeline body) s))"
      by (simp add: enter pipeline_finally_def split: prod.splits)
  qed
next
  case (7 sec_epoch body s)
  show ?case
  proof (intro impI)
    assume p: "\<exists>q. valkey s = Pipeline q" and t: "temp_valkey s \<noteq> Null"
    let ?mid = "s\<lparr>expire := Some sec_epoch\<rparr>"
    have enter: "expire_at_enter sec_epoch s = (expire s, ?mid)" by (simp add: expire_at_enter_def)
    from 7 [OF enter [symmetric]] p t
    have "queued_more ?mid (snd (exec_block body ?mid))" by simp
    then have "queued_more s (snd (exec_block body ?mid))" by (simp add: queued_more_def)
    then show "queued_more s (snd (exec (With_expire_at sec_epoch body) s))"
      by (auto simp: enter expire_at_resume_def queued_more_def split: prod.splits sum.splits)
  qed
next
  case (8 s)
  then show ?case by (auto simp: queued_more_refl)
next
  case (9 c cs s)
  show ?case
  proof (intro impI)
    assume p: "\<exists>q. valkey s = Pipeline q" and t: "temp_valkey s \<noteq> Null"
    obtain r s1 where rs: "exec c s = (r, s1)" by (cases "exec c s")
    from 9(1) p t rs have a: "queued_more s s1" by simp
    show "queued_more s (snd (exec_block (c # cs) s))"
    proof (cases r)
      case (Inl e)
      with rs a show ?thesis by simp
    next
      case (Inr u)
      from a have "\<exists>q. valkey s1 = Pipeline q" "temp_valkey s1 \<noteq> Null"
        using t by (auto simp: queued_more_def)
      with 9(2) [OF rs [symmetric] Inr] have "queued_more s1 (snd (exec_block cs s1))"
        by simp
      with a rs Inr show ?thesis by (simp add: queued_more_trans)
    qed
  qed
qed

lemma exec_block_append:
  "exec_block (xs @ ys) s =
     (case exec_block xs s of (Inl e, s1) \<Rightarrow> (Inl e, s1) | (Inr u, s1) \<Rightarrow> exec_block ys s1)"
  by (induction xs arbitrary: s) (auto split: prod.splits sum.splits)

text \<open>
  A scope entered with the client in place runs its body on a fresh pipeline handle; at
  the end of the body, however it ended, the handle is still in place and no batch has
  been sent. With nothing queued the exit puts the client back and sends nothing. With a
  queue the store accepts, the exit sends it as one batch, puts the client back and the
  outcome of the body stands. With a queue of which the store refuses a command, the
  exit sends the batch and raises the refusal in place of the outcome of the body; the
  emptied pipeline handle and the saved client stay where they are.
\<close>

lemma exec_with_pipeline_idle:
  assumes "valkey s = Client" and "temp_valkey s = Null"
    and "exec_block body (s\<lparr>valkey := Pipeline [], temp_valkey := Client\<rparr>) = (r1, s1)"
  shows "\<exists>q. valkey s1 = Pipeline q \<and> temp_valkey s1 = Client
           \<and> batches (round_trips (conn s1)) = batches (round_trips (conn s))
           \<and> exec (With_pipeline body) s
               = (case execute q (conn s1) of
                    (None, srv) \<Rightarrow> (r1, s1\<lparr>conn := srv, temp_valkey := Null, valkey := Client\<rparr>)
                  | (Some m, srv) \<Rightarrow>
                      (Inl (ResponseError m), s1\<lparr>conn := srv, valkey := Pipeline []\<rparr>))"
proof -
  let ?start = "s\<lparr>valkey := Pipeline [], temp_valkey := Client\<rparr>"
  have enter: "pipeline_enter s = (Inr True, ?start)"
    using assms(1,2) by (simp add: pipeline_enter_def)
  have "queued_more ?start (snd (exec_block body ?start))"
    using exec_queued_more(2) [of ?start body] by simp
  with assms(3) have qm: "queued_more ?start s1" by simp
  then obtain q where q: "valkey s1 = Pipeline q" and t: "temp_valkey s1 = Client"
    and b: "batches (round_trips (conn s1)) = batches (round_trips (conn s))"
    by (auto simp: queued_more_def)
  have "exec (With_pipeline body) s
               = (case execute q (conn s1) of
                    (None, srv) \<Rightarrow> (r1, s1\<lparr>conn := srv, temp_valkey := Null, valkey := Client\<rparr>)
                  | (Some m, srv) \<Rightarrow>
                      (Inl (ResponseError m), s1\<lparr>conn := srv, valkey := Pipeline []\<rparr>))"
    by (simp add: enter assms(3) pipeline_finally_def q t split: prod.splits option.splits)
  with q t b show ?thesis by blast
qed

lemma exec_with_pipeline_empty:
  "valkey s = Client \<Longrightarrow> temp_valkey s = Null \<Longrightarrow> exec (With_pipeline []) s = (Inr (), s)"
  by (cases s) (simp add: pipeline_enter_def pipeline_finally_def execute_def)

text \<open>
  When the body fails after a prefix that ran, what the prefix queued is sent, provided the
  store accepts it.
\<close>

lemma exec_with_pipeline_error_in_body:
  assumes "valkey s = Client" and "temp_valkey s = Null"
    and "exec_block pre (s\<lparr>valkey := Pipeline [], temp_valkey := Client\<rparr>) = (Inr (), s1)"
    and "valkey s1 = Pipeline q" and "q \<noteq> []" and "first_refusal q = None"
  shows "exec (With_pipeline (pre @ Raise e # rest)) s
           = (Inl e, s1\<lparr>conn := \<lparr>entries = serve_all q (entries (conn s1)),
                                  round_trips = round_trips (conn s1) @ [Batch q]\<rparr>,
                        temp_valkey := Null, valkey := Client\<rparr>)"
proof -
  have run: "exec_block (pre @ Raise e # rest) (s\<lparr>valkey := Pipeline [], temp_valkey := Client\<rparr>)
               = (Inl e, s1)"
    using assms(3) by (simp add: exec_block_append)
  from exec_with_pipeline_idle [OF assms(1,2) run] assms(4,5,6)
  show ?thesis by (auto simp: execute_def)
qed

lemma pipeline_scope_example:
  "exec (With_pipeline
          [Setitem (PyStr ''a'') (PyStr ''x''),
           With_pipeline [Setitem (PyStr ''b'') (PyStr ''y'')],
           Raise (ValueError ''boom''),
           Setitem (PyStr ''c'') (PyStr ''z'')])
        (init ''main'' None False False example_runtime empty_server)
     = (Inl (ValueError ''boom''),
        init ''main'' None False False example_runtime
          \<lparr>entries = [(''main:a'', ''str:x''), (''main:b'', ''str:y'')],
           round_trips = [Batch [SET ''main:a'' ''str:x'' None False,
                                 SET ''main:b'' ''str:y'' None False]]\<rparr>)"
proof -
  let ?s = "init ''main'' None False False example_runtime empty_server"
  let ?start = "?s\<lparr>valkey := Pipeline [], temp_valkey := Client\<rparr>"
  let ?q = "[SET ''main:a'' ''str:x'' None False, SET ''main:b'' ''str:y'' None False]"
  let ?mid = "?s\<lparr>temp_valkey := Client, valkey := Pipeline ?q\<rparr>"
  let ?pre = "[Setitem (PyStr ''a'') (PyStr ''x''), With_pipeline [Setitem (PyStr ''b'') (PyStr ''y'')]]"
  have pre: "exec_block ?pre ?start = (Inr (), ?mid)"
    by (simp add: setitem_def store_valid_eq Let_def pipeline_enter_def pipeline_finally_def)
  have "exec (With_pipeline (?pre @ Raise (ValueError ''boom'') # [Setitem (PyStr ''c'') (PyStr ''z'')])) ?s
          = (Inl (ValueError ''boom''),
             ?mid\<lparr>conn := \<lparr>entries = serve_all ?q (entries (conn ?mid)),
                            round_trips = round_trips (conn ?mid) @ [Batch ?q]\<rparr>,
                   temp_valkey := Null, valkey := Client\<rparr>)"
    by (rule exec_with_pipeline_error_in_body [OF _ _ pre]) simp_all
  then show ?thesis
    by (simp add: serve_SET init_def)
qed

text \<open>
  Claim C3. The exit of the outermost pipeline scope is to flush the batch and put the
  direct sink back whatever happened. In the \<open>finally\<close> block \<open>execute()\<close> is
  evaluated before the two attributes are assigned. With \<open>expire\<close> = n \<le> 0 the command
  a store queues is one the store refuses, so the flush raises: the batch has gone out,
  but \<open>self.valkey\<close> is still the pipeline handle and \<open>self._temp_valkey\<close> still the
  client. The next scope then finds a saved handle, takes itself for an inner scope and
  does not flush: its delete stays queued and nothing is sent.
\<close>

theorem pipeline_handle_stays_after_refused_flush:
  assumes "n \<le> 0"
  shows "(let s = init ns (Some (Seconds n)) False rk r srv;
              c = SET (ns @ '':a'') (format_value s (PyStr ''x'')) (Some (Seconds n)) False;
              (r1, s1) = exec (With_pipeline [Setitem (PyStr ''a'') (PyStr ''x'')]) s;
              (r2, s2) = exec (With_pipeline [Delitem (PyStr ''b'')]) s1
          in r1 = Inl (ResponseError ''invalid expire time in set command'')
           \<and> valkey s1 = Pipeline [] \<and> temp_valkey s1 = Client
           \<and> round_trips (conn s1) = round_trips srv @ [Batch [c]]
           \<and> r2 = Inr ()
           \<and> valkey s2 = Pipeline [DEL [ns @ '':b'']] \<and> temp_valkey s2 = Client
           \<and> conn s2 = conn s1)"
proof -
  let ?s = "init ns (Some (Seconds n)) False rk r srv"
  let ?c = "SET (ns @ '':a'') (format_value ?s (PyStr ''x'')) (Some (Seconds n)) False"
  let ?start = "?s\<lparr>valkey := Pipeline [], temp_valkey := Client\<rparr>"
  let ?mid = "?s\<lparr>temp_valkey := Client, valkey := Pipeline [?c]\<rparr>"
  let ?after = "?mid\<lparr>conn := \<lparr>entries = entries srv, round_trips = round_trips srv @ [Batch [?c]]\<rparr>,
                      valkey := Pipeline []\<rparr>"
  have ref: "refusal ?c = Some ''invalid expire time in set command''"
    using assms by (simp add: seconds_of_def)
  have body: "exec_block [Setitem (PyStr ''a'') (PyStr ''x'')] ?start = (Inr (), ?mid)"
    by (simp add: setitem_def store_valid_eq Let_def format_key_str)
  have one: "exec (With_pipeline [Setitem (PyStr ''a'') (PyStr ''x'')]) ?s
               = (Inl (ResponseError ''invalid expire time in set command''), ?after)"
    using ref
    by (simp add: pipeline_enter_def body pipeline_finally_def execute_def serve_refused
          del: exec_block.simps)
  have two: "exec (With_pipeline [Delitem (PyStr ''b'')]) ?after
               = (Inr (), ?after\<lparr>valkey := Pipeline [DEL [ns @ '':b'']]\<rparr>)"
    by (simp add: pipeline_enter_def pipeline_finally_def delitem_def valkey_call_def Let_def
          format_key_str)
  show ?thesis
    unfolding Let_def one prod.case two by simp
qed

theorem pipeline_handle_stays_after_refused_flush_witness:
  "(0::int) \<le> 0
   \<and> fst (exec (With_pipeline [Setitem (PyStr ''a'') (PyStr ''x'')])
           (init ''main'' (Some (Seconds 0)) False False example_runtime empty_server))
       = Inl (ResponseError ''invalid expire time in set command'')
   \<and> valkey (snd (exec (With_pipeline [Setitem (PyStr ''a'') (PyStr ''x'')])
           (init ''main'' (Some (Seconds 0)) False False example_runtime empty_server)))
       = Pipeline []
   \<and> temp_valkey (snd (exec (With_pipeline [Setitem (PyStr ''a'') (PyStr ''x'')])
           (init ''main'' (Some (Seconds 0)) False False example_runtime empty_server)))
       = Client
   \<and> round_trips (conn (snd (exec (With_pipeline [Setitem (PyStr ''a'') (PyStr ''x'')])
           (init ''main'' (Some (Seconds 0)) False False example_runtime empty_server))))
       = [Batch [SET ''main:a'' ''str:x'' (Some (Seconds 0)) False]]
   \<and> valkey (snd (exec (With_pipeline [Delitem (PyStr ''b'')])
        (snd (exec (With_pipeline [Setitem (PyStr ''a'') (PyStr ''x'')])
           (init ''main'' (Some (Seconds 0)) False False example_runtime empty_server)))))
       = Pipeline [DEL [''main:b'']]
   \<and> round_trips (conn (snd (exec (With_pipeline [Delitem (PyStr ''b'')])
        (snd (exec (With_pipeline [Setitem (PyStr ''a'') (PyStr ''x'')])
           (init ''main'' (Some (Seconds 0)) False False example_runtime empty_server))))))
       = [Batch [SET ''main:a'' ''str:x'' (Some (Seconds 0)) False]]"
proof -
  let ?s = "init ''main'' (Some (Seconds 0)) False False example_runtime empty_server"
  obtain r1 s1 where a: "exec (With_pipeline [Setitem (PyStr ''a'') (PyStr ''x'')]) ?s = (r1, s1)"
    by (cases "exec (With_pipeline [Setitem (PyStr ''a'') (PyStr ''x'')]) ?s")
  obtain r2 s2 where b: "exec (With_pipeline [Delitem (PyStr ''b'')]) s1 = (r2, s2)"
    by (cases "exec (With_pipeline [Delitem (PyStr ''b'')]) s1")
  from pipeline_handle_stays_after_refused_flush [of 0 "''main''" False example_runtime empty_server]
  have "r1 = Inl (ResponseError ''invalid expire time in set command'')
      \<and> valkey s1 = Pipeline [] \<and> temp_valkey s1 = Client
      \<and> round_trips (conn s1) = [Batch [SET ''main:a'' ''str:x'' (Some (Seconds 0)) False]]
      \<and> valkey s2 = Pipeline [DEL [''main:b'']]
      \<and> conn s2 = conn s1"
    by (simp add: Let_def a b del: exec.simps)
  with a b show ?thesis by (simp del: exec.simps)
qed

section \<open>The expiry scope\<close>

lemma exec_with_expire_at_normal:
  "exec_block body (s\<lparr>expire := Some sec_epoch\<rparr>) = (Inr (), s2) \<Longrightarrow>
     exec (With_expire_at sec_epoch body) s = (Inr (), s2\<lparr>expire := expire s\<rparr>)"
  by (simp add: expire_at_enter_def expire_at_resume_def)

lemma exec_with_expire_at_error:
  "exec_block body (s\<lparr>expire := Some sec_epoch\<rparr>) = (Inl e, s2) \<Longrightarrow>
     exec (With_expire_at sec_epoch body) s = (Inl e, s2)"
  by (simp add: expire_at_enter_def)

text \<open>
  Claim C2. The scope of \<open>expire_at\<close> is to put the prior \<open>expire\<close> back on exit,
  also when its body raises. After a body that ends normally it does
  (\<open>exec_with_expire_at_normal\<close>). The generator has no \<open>try\<close> around its \<open>yield\<close>,
  so when the body raises, be it by a \<open>raise\<close> or by reading an absent key, the error
  goes through and \<open>expire\<close> stays at the value the scope set.
\<close>

theorem expire_at_keeps_override_after_error:
  "exec (With_expire_at sec_epoch [Raise e]) s = (Inl e, s\<lparr>expire := Some sec_epoch\<rparr>)
   \<and> (map_of (entries (conn s)) (format_key s key) = None \<longrightarrow>
        fst (exec (With_expire_at sec_epoch [Getitem key]) s) = Inl (KeyError key)
        \<and> expire (snd (exec (With_expire_at sec_epoch [Getitem key]) s)) = Some sec_epoch)"
  by (simp add: expire_at_enter_def getitem_def load_eq Let_def)

theorem expire_at_keeps_override_after_error_witness:
  "expire (init ''main'' None False False example_runtime empty_server) = None
   \<and> exec (With_expire_at (Seconds 5) [Raise (ValueError ''boom'')])
        (init ''main'' None False False example_runtime empty_server)
      = (Inl (ValueError ''boom''),
         init ''main'' (Some (Seconds 5)) False False example_runtime empty_server)
   \<and> fst (exec (With_expire_at (Seconds 5) [Getitem (PyStr ''missing'')])
        (init ''main'' None False False example_runtime empty_server))
      = Inl (KeyError (PyStr ''missing''))
   \<and> expire (snd (exec (With_expire_at (Seconds 5) [Getitem (PyStr ''missing'')])
        (init ''main'' None False False example_runtime empty_server)))
      = Some (Seconds 5)"
proof -
  let ?s = "init ''main'' None False False example_runtime empty_server"
  have absent: "map_of (entries (conn ?s)) (format_key ?s (PyStr ''missing'')) = None" by simp
  have upd: "?s\<lparr>expire := Some (Seconds 5)\<rparr>
               = init ''main'' (Some (Seconds 5)) False False example_runtime empty_server"
    by (simp add: init_def)
  from expire_at_keeps_override_after_error [of "Seconds 5" "ValueError ''boom''" ?s "PyStr ''missing''"]
    absent upd
  show ?thesis by simp
qed

section \<open>Prefix operations on a small store\<close>

text \<open>
  A pattern that starts with characters the matcher takes literally matches a string
  with the same start when the rest of the pattern matches the rest of the string.
\<close>

lemma glob_literal_prefix:
  "set p \<inter> {CHR ''*'', CHR ''?'', CHR ''['', CHR 0x5C} = {} \<Longrightarrow> t \<noteq> [] \<Longrightarrow>
     glob (p @ q) (p @ t) = glob q t"
  by (induction p) (auto simp: glob_step_def)

lemma rfind_after_namespace:
  "CHR '':'' \<notin> set k \<Longrightarrow> rfind (ns @ CHR '':'' # k) CHR '':'' = int (length ns)"
proof -
  assume k: "CHR '':'' \<notin> set k"
  have a: "\<And>xs ys. CHR '':'' \<notin> set xs \<Longrightarrow>
             find_char CHR '':'' (xs @ CHR '':'' # ys) = Some (length xs)"
    subgoal for xs ys by (induction xs) auto
    done
  have "rev (ns @ CHR '':'' # k) = rev k @ CHR '':'' # rev ns" by simp
  with a [of "rev k" "rev ns"] k show ?thesis by (simp add: rfind_def)
qed

lemma query_not_star: "ns @ CHR '':'' # rest \<noteq> ''*''"
  by (cases ns) auto

lemma scan_keys_eq:
  "scan_keys s search_term full_scan =
     (Inr (filter (glob (namespace s @ '':'' @ search_term @ ''*'')) (map fst (entries (conn s)))),
      s\<lparr>conn := \<lparr>entries = entries (conn s),
                  round_trips = round_trips (conn s)
                    @ [Single (SCAN (namespace s @ '':'' @ search_term @ ''*'')
                                 (if full_scan then None else Some (batch_size s)))]\<rparr>\<rparr>)"
  using query_not_star [of "namespace s" "search_term @ ''*''"]
  by (simp add: scan_keys_def create_iter_query_def client_call_eq serve_SCAN Let_def)

lemma multi_empty:
  "fst (scan_keys s prefix False) = Inr [] \<Longrightarrow>
     fst (multi_get s prefix) = Inr []
     \<and> fst (multi_dict s prefix) = Inr Map.empty
     \<and> fst (multi_del s prefix) = Inr (Some (Integer 0))"
  by (auto simp: multi_get_def multi_dict_def multi_del_def split: prod.splits sum.splits)

lemma transform_present_conn [simp]:
  "transform_present (s\<lparr>conn := c\<rparr>) xs = transform_present s xs"
  by (induction xs rule: transform_present.induct) (auto split: sum.splits)

lemma store_on_client:
  assumes "valid_input s key" and "valid_input s v" and "valkey s = Client"
    and "\<forall>e. expire s = Some e \<longrightarrow> 0 < seconds_of e"
  shows "\<exists>trips. store s key v
           = (Inr (), s\<lparr>conn := \<lparr>entries = upsert (format_key s key) (format_value s v) (entries (conn s)),
                                  round_trips = trips\<rparr>\<rparr>)"
proof (cases "expire s")
  case None
  with assms(3) show ?thesis
    by (auto simp: store_valid_eq [OF assms(1,2)] Let_def client_call_eq serve_SET serve_EXISTS)
next
  case (Some e)
  with assms(4) have "0 < seconds_of e" by simp
  with Some assms(3) show ?thesis
    by (auto simp: store_valid_eq [OF assms(1,2)] Let_def client_call_eq serve_SET serve_EXISTS)
qed

lemma three_stores:
  assumes "type_name a \<noteq> ''str''" "type_name b \<noteq> ''str''" "type_name c \<noteq> ''str''"
    and ex: "\<forall>e. ex = Some e \<longrightarrow> 0 < seconds_of e"
  shows "\<exists>trips.
     exec_block [Setitem (PyStr ''foobar'') a, Setitem (PyStr ''foobaz'') b, Setitem (PyStr ''goobar'') c]
       (init ns ex pe rk r empty_server)
     = (Inr (), (init ns ex pe rk r empty_server)
         \<lparr>conn := \<lparr>entries =
            [(ns @ '':foobar'', format_value (init ns ex pe rk r empty_server) a),
             (ns @ '':foobaz'', format_value (init ns ex pe rk r empty_server) b),
             (ns @ '':goobar'', format_value (init ns ex pe rk r empty_server) c)],
          round_trips = trips\<rparr>\<rparr>)"
proof -
  let ?i = "init ns ex pe rk r empty_server"
  obtain t1 where 1: "store ?i (PyStr ''foobar'') a
      = (Inr (), ?i\<lparr>conn := \<lparr>entries = [(ns @ '':foobar'', format_value ?i a)], round_trips = t1\<rparr>\<rparr>)"
    using store_on_client [of ?i "PyStr ''foobar''" a] assms
    by (auto simp: valid_input_other format_key_str)
  let ?j = "?i\<lparr>conn := \<lparr>entries = [(ns @ '':foobar'', format_value ?i a)], round_trips = t1\<rparr>\<rparr>"
  obtain t2 where 2: "store ?j (PyStr ''foobaz'') b
      = (Inr (), ?i\<lparr>conn := \<lparr>entries = [(ns @ '':foobar'', format_value ?i a),
                                           (ns @ '':foobaz'', format_value ?i b)], round_trips = t2\<rparr>\<rparr>)"
    using store_on_client [of ?j "PyStr ''foobaz''" b] assms
    by (auto simp: valid_input_other format_key_str)
  let ?k = "?i\<lparr>conn := \<lparr>entries = [(ns @ '':foobar'', format_value ?i a),
                                     (ns @ '':foobaz'', format_value ?i b)], round_trips = t2\<rparr>\<rparr>"
  obtain t3 where 3: "store ?k (PyStr ''goobar'') c
      = (Inr (), ?i\<lparr>conn := \<lparr>entries = [(ns @ '':foobar'', format_value ?i a),
                                           (ns @ '':foobaz'', format_value ?i b),
                                           (ns @ '':goobar'', format_value ?i c)], round_trips = t3\<rparr>\<rparr>)"
    using store_on_client [of ?k "PyStr ''goobar''" c] assms
    by (auto simp: valid_input_other format_key_str)
  show ?thesis
    by (rule exI [of _ t3]) (simp add: setitem_def 1 2 3)
qed

lemma multi_dict_three:
  assumes ns: "set (namespace s) \<inter> {CHR ''*'', CHR ''?'', CHR ''['', CHR 0x5C} = {}"
    and cl: "valkey s = Client"
    and es: "entries (conn s) = [(namespace s @ '':foobar'', va), (namespace s @ '':foobaz'', vb),
                                 (namespace s @ '':goobar'', vc)]"
    and a: "transform s va = Inr a"
    and b: "transform s vb = Inr b"
  shows "fst (multi_dict s ''foo'') = Inr [''foobar'' \<mapsto> a, ''foobaz'' \<mapsto> b]"
proof -
  let ?ns = "namespace s"
  have lit: "glob '':foo*'' '':foobar''" "glob '':foo*'' '':foobaz''" "\<not> glob '':foo*'' '':goobar''"
    by (simp_all add: glob_step_def skip_stars_def)
  have g: "glob (?ns @ '':foo*'') (?ns @ '':foobar'')" "glob (?ns @ '':foo*'') (?ns @ '':foobaz'')"
    "\<not> glob (?ns @ '':foo*'') (?ns @ '':goobar'')"
    using lit ns by (simp_all only: glob_literal_prefix [OF ns] list.distinct not_False_eq_True)
  have rf: "rfind (?ns @ '':foobar'') CHR '':'' = int (length ?ns)"
    using rfind_after_namespace [of "''foobar''" ?ns] by simp
  obtain s1 where sc: "scan_keys s ''foo'' False = (Inr [?ns @ '':foobar'', ?ns @ '':foobaz''], s1)"
    and s1: "valkey s1 = Client" "entries (conn s1) = entries (conn s)"
    using g by (simp add: scan_keys_eq es cl del: glob.simps)
  obtain s2 where mg: "valkey_call (MGET [?ns @ '':foobar'', ?ns @ '':foobaz'']) s1
              = (Inr (Some (Array [Some va, Some vb])), s2)"
    by (simp add: valkey_call_def client_call_eq serve_MGET s1 es)
  have tp: "transform_present s [Some va, Some vb] = Inr [a, b]"
    by (simp add: a b)
  show ?thesis
    by (simp add: multi_dict_def sc mg decode_replies_def tp rf nat_add_distrib
          del: transform_present.simps)
qed

lemma scenario_result:
  assumes "set ns \<inter> {CHR ''*'', CHR ''?'', CHR ''['', CHR 0x5C} = {}"
    and "\<forall>e. ex = Some e \<longrightarrow> 0 < seconds_of e"
    and "transform (init ns ex pe rk r empty_server)
           (format_value (init ns ex pe rk r empty_server) (PyInt 1)) = Inr (PyInt 1)"
    and "transform (init ns ex pe rk r empty_server)
           (format_value (init ns ex pe rk r empty_server) (PyInt 2)) = Inr (PyInt 2)"
  shows "fst (multi_dict (snd (exec_block
            [Setitem (PyStr ''foobar'') (PyInt 1), Setitem (PyStr ''foobaz'') (PyInt 2),
             Setitem (PyStr ''goobar'') (PyInt 3)]
            (init ns ex pe rk r empty_server))) ''foo'')
         = Inr [''foobar'' \<mapsto> PyInt 1, ''foobaz'' \<mapsto> PyInt 2]"
proof -
  let ?i = "init ns ex pe rk r empty_server"
  obtain trips where run: "exec_block
            [Setitem (PyStr ''foobar'') (PyInt 1), Setitem (PyStr ''foobaz'') (PyInt 2),
             Setitem (PyStr ''goobar'') (PyInt 3)] ?i
     = (Inr (), ?i\<lparr>conn := \<lparr>entries =
            [(ns @ '':foobar'', format_value ?i (PyInt 1)),
             (ns @ '':foobaz'', format_value ?i (PyInt 2)),
             (ns @ '':goobar'', format_value ?i (PyInt 3))],
          round_trips = trips\<rparr>\<rparr>)"
    using three_stores [of "PyInt 1" "PyInt 2" "PyInt 3" ex ns pe rk r] assms(2) by auto
  show ?thesis
    unfolding run snd_conv
  proof (rule multi_dict_three)
    show "transform (?i\<lparr>conn := \<lparr>entries =
            [(ns @ '':foobar'', format_value ?i (PyInt 1)),
             (ns @ '':foobaz'', format_value ?i (PyInt 2)),
             (ns @ '':goobar'', format_value ?i (PyInt 3))],
          round_trips = trips\<rparr>\<rparr>) (format_value ?i (PyInt 1)) = Inr (PyInt 1)"
      using assms(3) by (simp only: transform_conn)
    show "transform (?i\<lparr>conn := \<lparr>entries =
            [(ns @ '':foobar'', format_value ?i (PyInt 1)),
             (ns @ '':foobaz'', format_value ?i (PyInt 2)),
             (ns @ '':goobar'', format_value ?i (PyInt 3))],
          round_trips = trips\<rparr>\<rparr>) (format_value ?i (PyInt 2)) = Inr (PyInt 2)"
      using assms(4) by (simp only: transform_conn)
  qed (simp_all add: assms(1))
qed

text \<open>
  Claim C5, as stated: after \<open>foobar\<close>, \<open>foobaz\<close> and \<open>goobar\<close> are set to 1, 2 and
  3, \<open>multi_dict("foo")\<close> is \<open>{"bar": 1, "baz": 2}\<close>. \<open>multi_dict\<close> cuts each key after
  its last colon, which takes the namespace off and leaves the search prefix on: the
  result is \<open>{"foobar": 1, "foobaz": 2}\<close>.
\<close>

theorem multi_dict_keeps_search_prefix:
  "fst (multi_dict (snd (exec_block
            [Setitem (PyStr ''foobar'') (PyInt 1), Setitem (PyStr ''foobaz'') (PyInt 2),
             Setitem (PyStr ''goobar'') (PyInt 3)]
            (init ''main'' None False False example_runtime empty_server))) ''foo'')
     = Inr [''foobar'' \<mapsto> PyInt 1, ''foobaz'' \<mapsto> PyInt 2]
   \<and> fst (multi_dict (snd (exec_block
            [Setitem (PyStr ''foobar'') (PyInt 1), Setitem (PyStr ''foobaz'') (PyInt 2),
             Setitem (PyStr ''goobar'') (PyInt 3)]
            (init ''main'' None False False example_runtime empty_server))) ''foo'')
     \<noteq> Inr [''bar'' \<mapsto> PyInt 1, ''baz'' \<mapsto> PyInt 2]"
proof -
  let ?i = "init ''main'' None False False example_runtime empty_server"
  have ns: "set ''main'' \<inter> {CHR ''*'', CHR ''?'', CHR ''['', CHR 0x5C} = {}" by simp
  have ex: "\<forall>e. (None :: expiry option) = Some e \<longrightarrow> 0 < seconds_of e" by simp
  have rt: "transform ?i (format_value ?i (PyInt 1)) = Inr (PyInt 1)"
    "transform ?i (format_value ?i (PyInt 2)) = Inr (PyInt 2)"
    by (simp_all add: example_int_round_trip)
  have eq: "fst (multi_dict (snd (exec_block
            [Setitem (PyStr ''foobar'') (PyInt 1), Setitem (PyStr ''foobaz'') (PyInt 2),
             Setitem (PyStr ''goobar'') (PyInt 3)] ?i)) ''foo'')
     = Inr [''foobar'' \<mapsto> PyInt 1, ''foobaz'' \<mapsto> PyInt 2]"
    by (rule scenario_result [OF ns ex rt])
  have "[''foobar'' \<mapsto> PyInt 1, ''foobaz'' \<mapsto> PyInt 2] ''foobar''
          \<noteq> [''bar'' \<mapsto> PyInt 1, ''baz'' \<mapsto> PyInt 2] ''foobar''"
    by simp
  then have "[''foobar'' \<mapsto> PyInt 1, ''foobaz'' \<mapsto> PyInt 2]
          \<noteq> [''bar'' \<mapsto> PyInt 1, ''baz'' \<mapsto> PyInt 2]"
    by metis
  with eq show ?thesis by simp
qed

text \<open>
  Claim C5, amended. In a namespace without the characters the store's matcher reads as
  more than themselves (\<open>*\<close>, \<open>?\<close>, \<open>[\<close> and the backslash), on an empty store, with
  an \<open>expire\<close> that is \<open>None\<close> or positive, so that the store accepts the three writes,
  and with integers 1 and 2 that decode to themselves, setting \<open>foobar\<close>, \<open>foobaz\<close> and
  \<open>goobar\<close> to 1, 2 and 3 makes \<open>multi_dict("foo")\<close> the mapping of \<open>foobar\<close> to 1
  and \<open>foobaz\<close> to 2: the keys that extend the prefix, with the namespace taken off
  and nothing else. When the scan of a prefix finds no key, \<open>multi_get\<close> returns the
  empty list, \<open>multi_dict\<close> the empty mapping and \<open>multi_del\<close> 0, none of them an
  error.
\<close>

theorem multi_dict_strips_namespace_only:
  "(set ns \<inter> {CHR ''*'', CHR ''?'', CHR ''['', CHR 0x5C} = {}
      \<and> (\<forall>e. ex = Some e \<longrightarrow> 0 < seconds_of e)
      \<and> transform (init ns ex pe rk r empty_server)
           (format_value (init ns ex pe rk r empty_server) (PyInt 1)) = Inr (PyInt 1)
      \<and> transform (init ns ex pe rk r empty_server)
           (format_value (init ns ex pe rk r empty_server) (PyInt 2)) = Inr (PyInt 2)
    \<longrightarrow> fst (multi_dict (snd (exec_block
            [Setitem (PyStr ''foobar'') (PyInt 1), Setitem (PyStr ''foobaz'') (PyInt 2),
             Setitem (PyStr ''goobar'') (PyInt 3)]
            (init ns ex pe rk r empty_server))) ''foo'')
         = Inr [''foobar'' \<mapsto> PyInt 1, ''foobaz'' \<mapsto> PyInt 2])
   \<and> (fst (scan_keys s prefix False) = Inr []
    \<longrightarrow> fst (multi_get s prefix) = Inr []
        \<and> fst (multi_dict s prefix) = Inr Map.empty
        \<and> fst (multi_del s prefix) = Inr (Some (Integer 0)))"
  using scenario_result [of ns ex pe rk r] multi_empty [of s prefix] by blast

theorem multi_dict_strips_namespace_only_witness:
  "fst (multi_dict (snd (exec_block
            [Setitem (PyStr ''foobar'') (PyInt 1), Setitem (PyStr ''foobaz'') (PyInt 2),
             Setitem (PyStr ''goobar'') (PyInt 3)]
            (init ''main'' (Some (Seconds 60)) False False example_runtime empty_server))) ''foo'')
     = Inr [''foobar'' \<mapsto> PyInt 1, ''foobaz'' \<mapsto> PyInt 2]
   \<and> fst (scan_keys (init ''main'' (Some (Seconds 60)) False False example_runtime empty_server)
        ''foo'' False) = Inr []
   \<and> fst (multi_get (init ''main'' (Some (Seconds 60)) False False example_runtime empty_server) ''foo'')
       = Inr []
   \<and> fst (multi_dict (init ''main'' (Some (Seconds 60)) False False example_runtime empty_server) ''foo'')
       = Inr Map.empty
   \<and> fst (multi_del (init ''main'' (Some (Seconds 60)) False False example_runtime empty_server) ''foo'')
       = Inr (Some (Integer 0))"
proof -
  let ?i = "init ''main'' (Some (Seconds 60)) False False example_runtime empty_server"
  have ns: "set ''main'' \<inter> {CHR ''*'', CHR ''?'', CHR ''['', CHR 0x5C} = {}" by simp
  have ex: "\<forall>e. Some (Seconds 60) = Some e \<longrightarrow> 0 < seconds_of e" by (simp add: seconds_of_def)
  have rt: "transform ?i (format_value ?i (PyInt 1)) = Inr (PyInt 1)"
    "transform ?i (format_value ?i (PyInt 2)) = Inr (PyInt 2)"
    by (simp_all add: example_int_round_trip)
  have none: "fst (scan_keys ?i ''foo'' False) = Inr []" by (simp add: scan_keys_eq)
  from multi_dict_strips_namespace_only
         [of "''main''" "Some (Seconds 60)" False False example_runtime ?i "''foo''"]
    ns ex rt none
  show ?thesis by blast
qed

end
